theory Spec2Isabelle
  imports Main
begin

section \<open>Objects, events and effects\<close>

text \<open>
  The two source files, \<^verbatim>\<open>class_demo.py\<close> and \<^verbatim>\<open>model.py\<close>, wrap the Kubernetes client.
  The cluster is outside the program: what a remote call answers and which events a watch
  subscription delivers are inputs of the model. What the program does to the outside
  (remote calls, \<^verbatim>\<open>watch.stop()\<close>, prints and log lines) is recorded, in order, as a list
  of effects.

  A watch subscription is opened with \<^verbatim>\<open>timeout_seconds\<close>, so the server closes it after
  that window: the events one subscription delivers are a finite list, and the end of
  the list is the timeout.
\<close>

datatype error =
    AttributeError
  | InitError string
  | ApiException nat
  | BodyError string

datatype effect =
    Remote string
  | WatchStop
  | Print string
  | LogInfo string
  | LogWarning string

text \<open>
  Objects that come from the server (the answer of a create call, the snapshot in a watch
  event) carry their metadata and their status; the fields the program reads are kept,
  and a field the server may leave out is an option (\<^verbatim>\<open>None\<close> in Python).
  \<^verbatim>\<open>event["type"]\<close> is a string.
\<close>

record pod_obj =
  pod_name :: string
  pod_namespace :: string
  pod_uid :: "string option"
  pod_phase :: "string option"

record dep_obj =
  dep_name :: string
  dep_namespace :: string
  dep_uid :: "string option"
  dep_replicas :: "int option"
  dep_available_replicas :: "int option"

record pod_event =
  pev_type :: string
  pev_object :: pod_obj

record dep_event =
  dev_type :: string
  dev_object :: dep_obj

definition pod_namespaced_name :: "pod_obj \<Rightarrow> string" where
  "pod_namespaced_name p = pod_namespace p @ ''/'' @ pod_name p"

definition dep_namespaced_name :: "dep_obj \<Rightarrow> string" where
  "dep_namespaced_name d = dep_namespace d @ ''/'' @ dep_name d"

section \<open>The readiness watch loops\<close>

text \<open>
  \<^verbatim>\<open>PodManager.ready\<close> (class_demo.py, lines 38-47). The function falls off the end of the
  loop when the stream ends, so it returns \<^verbatim>\<open>None\<close> there: the result is a \<open>bool option\<close>.
  The second component is what the loop did on the way.
\<close>

fun PodManager_ready_loop :: "pod_obj \<Rightarrow> pod_event list \<Rightarrow> bool option \<times> effect list" where
  "PodManager_ready_loop self [] = (None, [])"
| "PodManager_ready_loop self (event # rest) =
     (if pod_phase (pev_object event) = Some ''Running''
         \<and> pod_name (pev_object event) = pod_name self
      then (Some True, [Print (pod_name (pev_object event)), WatchStop])
      else if pev_type event = ''DELETED''
      then (Some False, [WatchStop])
      else PodManager_ready_loop self rest)"

text \<open>
  \<^verbatim>\<open>DeploymentManager.ready\<close> (class_demo.py, lines 93-104). Every event's type is printed
  first.
\<close>

fun DeploymentManager_ready_loop ::
  "dep_obj \<Rightarrow> dep_event list \<Rightarrow> bool option \<times> effect list" where
  "DeploymentManager_ready_loop self [] = (None, [])"
| "DeploymentManager_ready_loop self (event # rest) =
     (if dep_name (dev_object event) = dep_name self
         \<and> dep_available_replicas (dev_object event) = dep_replicas self
      then (Some True, [Print (dev_type event), Print (dep_name (dev_object event)), WatchStop])
      else if dev_type event = ''DELETED''
      then (Some False, [Print (dev_type event), WatchStop])
      else (case DeploymentManager_ready_loop self rest of
              (r, fx) \<Rightarrow> (r, Print (dev_type event) # fx)))"

text \<open>The wait loop of \<^verbatim>\<open>Pod.create\<close> (model.py, lines 117-129).\<close>

fun Pod_create_wait :: "pod_obj \<Rightarrow> pod_event list \<Rightarrow> bool \<times> effect list" where
  "Pod_create_wait self [] =
     (False, [LogWarning (''Unable to get created pod '' @ pod_namespaced_name self)])"
| "Pod_create_wait self (event # rest) =
     (if pod_phase (pev_object event) = Some ''Running''
         \<and> pod_name (pev_object event) = pod_name self
      then (True, [WatchStop, LogInfo (''Pod created '' @ pod_namespaced_name self)])
      else if pev_type event = ''DELETED'' \<and> pod_name (pev_object event) = pod_name self
      then (False, [WatchStop, LogWarning (''Pod deleted '' @ pod_namespaced_name self)])
      else Pod_create_wait self rest)"

text \<open>The wait loop of \<^verbatim>\<open>Deployment.create\<close> (model.py, lines 246-257).\<close>

fun Deployment_create_wait :: "dep_obj \<Rightarrow> dep_event list \<Rightarrow> bool \<times> effect list" where
  "Deployment_create_wait self [] =
     (False, [Print (''unable to get created deployment '' @ dep_namespaced_name self)])"
| "Deployment_create_wait self (event # rest) =
     (if dep_available_replicas (dev_object event) = dep_replicas self
         \<and> dep_name (dev_object event) = dep_name self
      then (True, [WatchStop])
      else if dev_type event = ''DELETED'' \<and> dep_name (dev_object event) = dep_name self
      then (False, [WatchStop])
      else Deployment_create_wait self rest)"

text \<open>
  The conditions of the loops, named. An event is ready for a target when its snapshot
  satisfies the readiness predicate and carries the target's name.
\<close>

definition pod_ready :: "pod_obj \<Rightarrow> pod_event \<Rightarrow> bool" where
  "pod_ready self e \<longleftrightarrow>
     pod_phase (pev_object e) = Some ''Running'' \<and> pod_name (pev_object e) = pod_name self"

definition pod_deleted :: "pod_obj \<Rightarrow> pod_event \<Rightarrow> bool" where
  "pod_deleted self e \<longleftrightarrow>
     pev_type e = ''DELETED'' \<and> pod_name (pev_object e) = pod_name self"

definition dep_ready :: "dep_obj \<Rightarrow> dep_event \<Rightarrow> bool" where
  "dep_ready self e \<longleftrightarrow>
     dep_available_replicas (dev_object e) = dep_replicas self
     \<and> dep_name (dev_object e) = dep_name self"

definition dep_deleted :: "dep_obj \<Rightarrow> dep_event \<Rightarrow> bool" where
  "dep_deleted self e \<longleftrightarrow>
     dev_type e = ''DELETED'' \<and> dep_name (dev_object e) = dep_name self"

section \<open>Deletion watch loops\<close>

text \<open>
  The model an entity holds is either an object with metadata (built from the manifest or
  answered by the server) or the empty default \<^verbatim>\<open>client.V1Pod()\<close> /
  \<^verbatim>\<open>client.V1Deployment()\<close>, whose attributes are all \<^verbatim>\<open>None\<close>: reading
  \<^verbatim>\<open>model.metadata.name\<close> on it raises \<^verbatim>\<open>AttributeError\<close>.
\<close>

datatype v1_pod = V1Pod_empty | V1Pod pod_obj

datatype v1_deployment = V1Deployment_empty | V1Deployment dep_obj

datatype json =
    JNull
  | JBool bool
  | JNum int
  | JStr string
  | JArr "json list"
  | JObj "(string \<times> json) list"

record Pod =
  manifest :: json
  model :: v1_pod

record Deployment =
  d_manifest :: json
  d_model :: v1_deployment

text \<open>The wait loop of \<^verbatim>\<open>Pod.delete\<close> (model.py, lines 140-149): it resets the model.\<close>

fun Pod_delete_wait :: "Pod \<Rightarrow> pod_obj \<Rightarrow> pod_event list \<Rightarrow> bool \<times> Pod \<times> effect list" where
  "Pod_delete_wait s self [] =
     (False, s, [LogWarning (''Unable to delete pod '' @ pod_namespaced_name self)])"
| "Pod_delete_wait s self (event # rest) =
     (if pev_type event = ''DELETED'' \<and> pod_uid (pev_object event) = pod_uid self
      then (True, s\<lparr>model := V1Pod_empty\<rparr>,
            [WatchStop, LogInfo (''Deleted pod '' @ pod_namespaced_name self)])
      else Pod_delete_wait s self rest)"

text \<open>
  The wait loop of \<^verbatim>\<open>Deployment.delete\<close> (model.py, lines 270-275): it returns
  \<^verbatim>\<open>True\<close> without touching the model.
\<close>

fun Deployment_delete_wait ::
  "Deployment \<Rightarrow> dep_obj \<Rightarrow> dep_event list \<Rightarrow> bool \<times> Deployment \<times> effect list" where
  "Deployment_delete_wait s self [] =
     (False, s, [Print (''unable to delete deployment '' @ dep_namespaced_name self)])"
| "Deployment_delete_wait s self (event # rest) =
     (if dev_type event = ''DELETED'' \<and> dep_uid (dev_object event) = dep_uid self
      then (True, s, [WatchStop])
      else Deployment_delete_wait s self rest)"

section \<open>The cluster as seen by one entity\<close>

text \<open>
  What the remote calls of one scoped use answer: the create call (an \<^verbatim>\<open>ApiException\<close> or
  the created object), the events of the watch opened by the readiness wait, the delete
  call, and the events of the watch opened by the deletion wait.
\<close>

record pod_cluster =
  create_namespaced_pod :: "error + pod_obj"
  pod_create_events :: "pod_event list"
  delete_namespaced_pod :: "error + unit"
  pod_delete_events :: "pod_event list"

record dep_cluster =
  create_namespaced_deployment :: "error + dep_obj"
  dep_create_events :: "dep_event list"
  delete_namespaced_deployment :: "error + unit"
  dep_delete_events :: "dep_event list"

section \<open>\<^verbatim>\<open>model.py\<close>: Pod\<close>

text \<open>
  \<^verbatim>\<open>Pod.create\<close> (lines 111-131). Line 112 formats \<^verbatim>\<open>self.namespaced_name\<close>, which
  reads the model's metadata. Line 113 logs the serialised model, recorded as
  \<open>LogInfo ''to_pretty''\<close>. The answer of the create call replaces the model.
\<close>

definition Pod_create ::
  "Pod \<Rightarrow> bool \<Rightarrow> pod_cluster \<Rightarrow> (error + bool) \<times> Pod \<times> effect list" where
  "Pod_create s wait_for_completion cl =
     (case model s of
        V1Pod_empty \<Rightarrow> (Inl AttributeError, s, [])
      | V1Pod self \<Rightarrow>
          (let fx = [LogInfo (''Creating pod '' @ pod_namespaced_name self),
                     LogInfo ''to_pretty'', Remote ''create_namespaced_pod'']
           in case create_namespaced_pod cl of
                Inl e \<Rightarrow> (Inl e, s, fx)
              | Inr res \<Rightarrow>
                  (let s' = s\<lparr>model := V1Pod res\<rparr>
                   in if wait_for_completion
                      then (case Pod_create_wait res (pod_create_events cl) of
                              (r, wfx) \<Rightarrow> (Inr r, s', fx @ Remote ''list_namespaced_pod'' # wfx))
                      else (Inr True, s',
                            fx @ [LogInfo (''Pod created '' @ pod_namespaced_name res)]))))"

text \<open>
  \<^verbatim>\<open>Pod.delete\<close> (lines 136-152). Without \<^verbatim>\<open>wait_for_completion\<close> line 150 resets the
  model first and line 151 then formats \<^verbatim>\<open>self.namespaced_name\<close>, which reads the
  metadata of the model that was just emptied: the call raises \<^verbatim>\<open>AttributeError\<close> after
  the reset, and the line is never logged.
\<close>

definition Pod_delete ::
  "Pod \<Rightarrow> bool \<Rightarrow> pod_cluster \<Rightarrow> (error + bool) \<times> Pod \<times> effect list" where
  "Pod_delete s wait_for_completion cl =
     (case model s of
        V1Pod_empty \<Rightarrow> (Inl AttributeError, s, [])
      | V1Pod self \<Rightarrow>
          (let fx = [LogInfo (''Deleting pod '' @ pod_namespaced_name self),
                     Remote ''delete_namespaced_pod'']
           in case delete_namespaced_pod cl of
                Inl e \<Rightarrow> (Inl e, s, fx)
              | Inr _ \<Rightarrow>
                  if wait_for_completion
                  then (case Pod_delete_wait s self (pod_delete_events cl) of
                          (r, s', wfx) \<Rightarrow> (Inr r, s', fx @ Remote ''list_namespaced_pod'' # wfx))
                  else (Inl AttributeError, s\<lparr>model := V1Pod_empty\<rparr>, fx)))"

text \<open>
  \<^verbatim>\<open>Pod.__enter__\<close> (lines 171-176) returns \<^verbatim>\<open>self\<close> on both branches.
  \<^verbatim>\<open>Pod.__exit__\<close> (lines 178-180) has no \<^verbatim>\<open>return\<close>: its value is \<^verbatim>\<open>None\<close>, here
  \<open>None :: bool option\<close>.
\<close>

definition Pod_enter :: "Pod \<Rightarrow> pod_cluster \<Rightarrow> (error + Pod) \<times> Pod \<times> effect list" where
  "Pod_enter s cl =
     (case Pod_create s True cl of
        (Inl e, s', fx) \<Rightarrow> (Inl e, s', fx)
      | (Inr r, s', fx) \<Rightarrow>
          if r then (Inr s', s', fx)
          else (Inr s', s', fx @ [Print ''unable to get pod ready'']))"

definition Pod_exit :: "Pod \<Rightarrow> pod_cluster \<Rightarrow> (error + bool option) \<times> Pod \<times> effect list" where
  "Pod_exit s cl =
     (case Pod_delete s True cl of
        (Inl e, s', fx) \<Rightarrow> (Inl e, s', fx)
      | (Inr r, s', fx) \<Rightarrow>
          if \<not> r then (Inr None, s', fx @ [Print ''unable to delete pod''])
          else (Inr None, s', fx))"

section \<open>\<^verbatim>\<open>model.py\<close>: Deployment\<close>

text \<open>\<^verbatim>\<open>Deployment.create\<close> (lines 242-258).\<close>

definition Deployment_create ::
  "Deployment \<Rightarrow> bool \<Rightarrow> dep_cluster \<Rightarrow> (error + bool) \<times> Deployment \<times> effect list" where
  "Deployment_create s wait_for_completion cl =
     (case d_model s of
        V1Deployment_empty \<Rightarrow> (Inl AttributeError, s, [LogInfo ''to_pretty''])
      | V1Deployment self \<Rightarrow>
          (let fx = [LogInfo ''to_pretty'', Remote ''create_namespaced_deployment'']
           in case create_namespaced_deployment cl of
                Inl e \<Rightarrow> (Inl e, s, fx)
              | Inr res \<Rightarrow>
                  (let s' = s\<lparr>d_model := V1Deployment res\<rparr>
                   in if wait_for_completion
                      then (case Deployment_create_wait res (dep_create_events cl) of
                              (r, wfx) \<Rightarrow>
                                (Inr r, s', fx @ Remote ''list_namespaced_deployment'' # wfx))
                      else (Inr True, s', fx))))"

text \<open>
  \<^verbatim>\<open>Deployment.delete\<close> (lines 263-277). With \<^verbatim>\<open>wait_for_completion\<close> the watcher is
  built before the delete call (a generator: its request goes out when the loop starts),
  and the path that waits returns without assigning \<^verbatim>\<open>self.model\<close>; only the path that
  does not wait reaches line 276.
\<close>

definition Deployment_delete ::
  "Deployment \<Rightarrow> bool \<Rightarrow> dep_cluster \<Rightarrow> (error + bool) \<times> Deployment \<times> effect list" where
  "Deployment_delete s wait_for_completion cl =
     (case d_model s of
        V1Deployment_empty \<Rightarrow> (Inl AttributeError, s, [])
      | V1Deployment self \<Rightarrow>
          (let fx = [Remote ''delete_namespaced_deployment'']
           in case delete_namespaced_deployment cl of
                Inl e \<Rightarrow> (Inl e, s, fx)
              | Inr _ \<Rightarrow>
                  if wait_for_completion
                  then (case Deployment_delete_wait s self (dep_delete_events cl) of
                          (r, s', wfx) \<Rightarrow>
                            (Inr r, s', fx @ Remote ''list_namespaced_deployment'' # wfx))
                  else (Inr True, s\<lparr>d_model := V1Deployment_empty\<rparr>, fx)))"

text \<open>\<^verbatim>\<open>Deployment.__enter__\<close> (lines 282-286) and \<^verbatim>\<open>Deployment.__exit__\<close> (lines 288-290).\<close>

definition Deployment_enter ::
  "Deployment \<Rightarrow> dep_cluster \<Rightarrow> (error + Deployment) \<times> Deployment \<times> effect list" where
  "Deployment_enter s cl =
     (case Deployment_create s True cl of
        (Inl e, s', fx) \<Rightarrow> (Inl e, s', fx)
      | (Inr r, s', fx) \<Rightarrow> if r then (Inr s', s', fx) else (Inr s', s', fx))"

definition Deployment_exit ::
  "Deployment \<Rightarrow> dep_cluster \<Rightarrow> (error + bool option) \<times> Deployment \<times> effect list" where
  "Deployment_exit s cl =
     (case Deployment_delete s True cl of
        (Inl e, s', fx) \<Rightarrow> (Inl e, s', fx)
      | (Inr r, s', fx) \<Rightarrow>
          if \<not> r then (Inr None, s', fx @ [Print ''unable to delete deployment''])
          else (Inr None, s', fx))"

section \<open>\<^verbatim>\<open>class_demo.py\<close>: PodManager and DeploymentManager\<close>

text \<open>
  \<^verbatim>\<open>self.pod\<close> is the manifest dictionary the manager was built with, until a create call
  answers; a dictionary has no attribute \<^verbatim>\<open>metadata\<close>.
\<close>

datatype pm_pod = PodDict json | PodModel v1_pod

datatype dm_deployment = DeploymentDict json | DeploymentModel v1_deployment

record PodManager =
  pod :: pm_pod

record DeploymentManager =
  deployment :: dm_deployment

fun pm_metadata :: "pm_pod \<Rightarrow> error + pod_obj" where
  "pm_metadata (PodModel (V1Pod p)) = Inr p"
| "pm_metadata _ = Inl AttributeError"

fun dm_metadata :: "dm_deployment \<Rightarrow> error + dep_obj" where
  "dm_metadata (DeploymentModel (V1Deployment d)) = Inr d"
| "dm_metadata _ = Inl AttributeError"

text \<open>\<^verbatim>\<open>PodManager.create\<close> (lines 17-20) and \<^verbatim>\<open>PodManager.delete\<close> (lines 28-31).\<close>

definition PodManager_create ::
  "PodManager \<Rightarrow> pod_cluster \<Rightarrow> (error + unit) \<times> PodManager \<times> effect list" where
  "PodManager_create s cl =
     (let fx = [Print ''create'', Remote ''create_namespaced_pod'']
      in case create_namespaced_pod cl of
           Inl e \<Rightarrow> (Inl e, s, fx)
         | Inr res \<Rightarrow> (Inr (), s\<lparr>pod := PodModel (V1Pod res)\<rparr>, fx))"

definition PodManager_delete ::
  "PodManager \<Rightarrow> pod_cluster \<Rightarrow> (error + bool) \<times> PodManager \<times> effect list" where
  "PodManager_delete s cl =
     (let fx = [Remote ''delete_namespaced_pod'']
      in case delete_namespaced_pod cl of
           Inl e \<Rightarrow> (Inl e, s, fx)
         | Inr _ \<Rightarrow> (Inr True, s\<lparr>pod := PodModel V1Pod_empty\<rparr>, fx))"

text \<open>\<^verbatim>\<open>PodManager.ready\<close> (lines 36-47), around its loop.\<close>

definition PodManager_ready ::
  "PodManager \<Rightarrow> pod_event list \<Rightarrow> (error + bool option) \<times> PodManager \<times> effect list" where
  "PodManager_ready s events =
     (case pm_metadata (pod s) of
        Inl e \<Rightarrow> (Inl e, s, [Print ''ready''])
      | Inr self \<Rightarrow>
          (case PodManager_ready_loop self events of
             (r, fx) \<Rightarrow> (Inr r, s, Print ''ready'' # Remote ''list_namespaced_pod'' # fx)))"

text \<open>
  \<^verbatim>\<open>PodManager.__enter__\<close> (lines 61-68) and \<^verbatim>\<open>PodManager.__exit__\<close> (lines 70-71), which
  returns what \<^verbatim>\<open>delete\<close> returns.
\<close>

definition PodManager_enter ::
  "PodManager \<Rightarrow> pod_cluster \<Rightarrow> (error + PodManager) \<times> PodManager \<times> effect list" where
  "PodManager_enter s cl =
     (case PodManager_create s cl of
        (Inl e, s', fx) \<Rightarrow> (Inl e, s', Print ''__enter__'' # fx)
      | (Inr _, s', fx) \<Rightarrow>
          (case PodManager_ready s' (pod_create_events cl) of
             (Inl e, s'', rfx) \<Rightarrow> (Inl e, s'', Print ''__enter__'' # fx @ rfx)
           | (Inr r, s'', rfx) \<Rightarrow>
               if r = Some True then (Inr s'', s'', Print ''__enter__'' # fx @ rfx)
               else (Inr s'', s'',
                     Print ''__enter__'' # fx @ rfx @ [Print ''unable to get pod ready''])))"

definition PodManager_exit ::
  "PodManager \<Rightarrow> pod_cluster \<Rightarrow> (error + bool option) \<times> PodManager \<times> effect list" where
  "PodManager_exit s cl =
     (case pm_metadata (pod s) of
        Inl e \<Rightarrow> (Inl e, s, [])
      | Inr self \<Rightarrow>
          (case PodManager_delete s cl of
             (Inl e, s', fx) \<Rightarrow> (Inl e, s', fx)
           | (Inr r, s', fx) \<Rightarrow> (Inr (Some r), s', fx)))"

text \<open>
  \<^verbatim>\<open>DeploymentManager.delete\<close> (lines 88-89) returns the answer of the remote call and
  leaves \<^verbatim>\<open>self.deployment\<close> as it is.
\<close>

definition DeploymentManager_delete ::
  "DeploymentManager \<Rightarrow> dep_cluster \<Rightarrow> (error + unit) \<times> DeploymentManager \<times> effect list" where
  "DeploymentManager_delete s cl =
     (case dm_metadata (deployment s) of
        Inl e \<Rightarrow> (Inl e, s, [])
      | Inr self \<Rightarrow>
          (case delete_namespaced_deployment cl of
             Inl e \<Rightarrow> (Inl e, s, [Remote ''delete_namespaced_deployment''])
           | Inr u \<Rightarrow> (Inr u, s, [Remote ''delete_namespaced_deployment''])))"

section \<open>The \<^verbatim>\<open>with\<close> statement\<close>

text \<open>
  Python runs \<^verbatim>\<open>with M as h: BODY\<close> as follows. \<^verbatim>\<open>__enter__\<close> runs first, and an error
  there leaves the statement at once. Then the body runs. If the body raises,
  \<^verbatim>\<open>__exit__\<close> is called with the error: an error raised by \<^verbatim>\<open>__exit__\<close> replaces it, a
  true return value suppresses it, and otherwise it is raised again. If the body returns,
  \<^verbatim>\<open>__exit__\<close> is called without an error and only an error of its own leaves the
  statement by raising. The result is \<open>Inr None\<close> when a body error was suppressed.
\<close>

definition py_with ::
  "('s \<Rightarrow> (error + 's) \<times> 's \<times> effect list) \<Rightarrow>
   ('s \<Rightarrow> (error + bool option) \<times> 's \<times> effect list) \<Rightarrow>
   ('s \<Rightarrow> (error + 'a) \<times> 's \<times> effect list) \<Rightarrow>
   's \<Rightarrow> (error + 'a option) \<times> 's \<times> effect list" where
  "py_with enter exit body s =
     (case enter s of
        (Inl e, s1, fx1) \<Rightarrow> (Inl e, s1, fx1)
      | (Inr h, s1, fx1) \<Rightarrow>
          (case body h of
             (Inl e, s2, fx2) \<Rightarrow>
               (case exit s2 of
                  (Inl e', s3, fx3) \<Rightarrow> (Inl e', s3, fx1 @ fx2 @ fx3)
                | (Inr r, s3, fx3) \<Rightarrow>
                    if r = Some True then (Inr None, s3, fx1 @ fx2 @ fx3)
                    else (Inl e, s3, fx1 @ fx2 @ fx3))
           | (Inr v, s2, fx2) \<Rightarrow>
               (case exit s2 of
                  (Inl e', s3, fx3) \<Rightarrow> (Inl e', s3, fx1 @ fx2 @ fx3)
                | (Inr r, s3, fx3) \<Rightarrow> (Inr (Some v), s3, fx1 @ fx2 @ fx3))))"

section \<open>Manifests\<close>

text \<open>
  A manifest is a Python dictionary of JSON values, kept as an association list in
  insertion order. \<open>truthy\<close> is Python's truth value, \<open>py_get\<close> is
  \<^verbatim>\<open>x.get(key, default)\<close>: only a dictionary has the method.
\<close>

fun truthy :: "json \<Rightarrow> bool" where
  "truthy JNull = False"
| "truthy (JBool b) = b"
| "truthy (JNum n) = (n \<noteq> 0)"
| "truthy (JStr s) = (s \<noteq> [])"
| "truthy (JArr xs) = (xs \<noteq> [])"
| "truthy (JObj kvs) = (kvs \<noteq> [])"

fun py_get :: "json \<Rightarrow> string \<Rightarrow> json \<Rightarrow> error + json" where
  "py_get (JObj kvs) k d = Inr (case map_of kvs k of None \<Rightarrow> d | Some v \<Rightarrow> v)"
| "py_get _ k d = Inl AttributeError"

text \<open>\<^verbatim>\<open>d[k] = v\<close>: an existing key keeps its place, a new key goes to the end.\<close>

fun dict_set :: "string \<Rightarrow> json \<Rightarrow> (string \<times> json) list \<Rightarrow> (string \<times> json) list" where
  "dict_set k v [] = [(k, v)]"
| "dict_set k v ((k', v') # kvs) =
     (if k' = k then (k, v) # kvs else (k', v') # dict_set k v kvs)"

text \<open>
  Modelled from the spec: \<^verbatim>\<open>merge\<close> is imported from the package \<^verbatim>\<open>jsonmerge\<close>, whose code
  is not part of the sources. The spec (4.1) describes it: the override is merged onto the
  base key by key; where both values are mappings they merge recursively; any other
  override value, sequences included, replaces the base value.
\<close>

fun merge :: "json \<Rightarrow> json \<Rightarrow> json"
  and merge_obj :: "(string \<times> json) list \<Rightarrow> (string \<times> json) list \<Rightarrow> (string \<times> json) list" where
  "merge (JObj b) (JObj h) = JObj (merge_obj b h)"
| "merge b h = h"
| "merge_obj b [] = b"
| "merge_obj b ((k, v) # h) =
     merge_obj (dict_set k (case map_of b k of None \<Rightarrow> v | Some bv \<Rightarrow> merge bv v) b) h"

text \<open>
  A document is well formed when no mapping in it, at any depth, has a key twice, as in
  every Python dictionary.
\<close>

fun wf_json :: "json \<Rightarrow> bool"
  and wf_items :: "(string \<times> json) list \<Rightarrow> bool" where
  "wf_json (JObj kvs) = (distinct (map fst kvs) \<and> wf_items kvs)"
| "wf_json (JArr xs) = list_all wf_json xs"
| "wf_json _ = True"
| "wf_items [] = True"
| "wf_items ((k, v) # kvs) = (wf_json v \<and> wf_items kvs)"

text \<open>\<^verbatim>\<open>BaseObject.merge_partial_manifest\<close> (model.py, lines 31-32).\<close>

definition merge_partial_manifest :: "Pod \<Rightarrow> json \<Rightarrow> Pod" where
  "merge_partial_manifest s partial_manifest =
     s\<lparr>manifest := merge (manifest s) partial_manifest\<rparr>"

section \<open>Construction\<close>

text \<open>
  The check of \<^verbatim>\<open>Pod.__init__\<close> (model.py, line 69) and \<^verbatim>\<open>Deployment.__init__\<close> (line
  200): \<^verbatim>\<open>not m.get("metadata", {}).get("name") or not m.get("metadata", {}).get("namespace")\<close>.
  The default \<^verbatim>\<open>{}\<close> is used only when the key \<^verbatim>\<open>metadata\<close> is absent; \<^verbatim>\<open>or\<close>
  evaluates its right operand only when the left one is false.
\<close>

definition identity_not_specified :: "json \<Rightarrow> error + bool" where
  "identity_not_specified m =
     (case py_get m ''metadata'' (JObj []) of
        Inl e \<Rightarrow> Inl e
      | Inr md \<Rightarrow>
          (case py_get md ''name'' JNull of
             Inl e \<Rightarrow> Inl e
           | Inr n \<Rightarrow>
               if \<not> truthy n then Inr True
               else (case py_get md ''namespace'' JNull of
                       Inl e \<Rightarrow> Inl e
                     | Inr ns \<Rightarrow> Inr (\<not> truthy ns))))"

text \<open>
  The manifest \<^verbatim>\<open>__init__\<close> checks (lines 61-67 and 192-198): the body, or the class's
  default manifest \<^verbatim>\<open>{}\<close> when the body is \<^verbatim>\<open>None\<close>, merged with the partial manifest
  when that is true.
\<close>

definition init_manifest :: "json \<Rightarrow> json \<Rightarrow> json" where
  "init_manifest body partial_manifest =
     (let m = (if body = JNull then JObj [] else body)
      in if truthy partial_manifest then merge m partial_manifest else m)"

text \<open>
  \<^verbatim>\<open>Pod.__init__\<close> (model.py, lines 56-72) and \<^verbatim>\<open>Deployment.__init__\<close> (lines 187-203).
  Building the API client and the watch object sends nothing. \<^verbatim>\<open>deserialize\<close> belongs to the
  Kubernetes client and is a parameter. The second component lists the effects of the
  constructor.
\<close>

definition Pod_init ::
  "(json \<Rightarrow> error + pod_obj) \<Rightarrow> json \<Rightarrow> json \<Rightarrow> (error + Pod) \<times> effect list" where
  "Pod_init deserialize body partial_manifest =
     (let m = init_manifest body partial_manifest
      in case identity_not_specified m of
           Inl e \<Rightarrow> (Inl e, [])
         | Inr True \<Rightarrow>
             (Inl (InitError ''name & namespace both not specified while initializing pod''), [])
         | Inr False \<Rightarrow>
             (case deserialize m of
                Inl e \<Rightarrow> (Inl e, [])
              | Inr obj \<Rightarrow> (Inr \<lparr>manifest = m, model = V1Pod obj\<rparr>, [])))"

definition Deployment_init ::
  "(json \<Rightarrow> error + dep_obj) \<Rightarrow> json \<Rightarrow> json \<Rightarrow> (error + Deployment) \<times> effect list" where
  "Deployment_init deserialize body partial_manifest =
     (let m = init_manifest body partial_manifest
      in case identity_not_specified m of
           Inl e \<Rightarrow> (Inl e, [])
         | Inr True \<Rightarrow>
             (Inl (InitError
                ''name & namespace both not specified while initializing deployment''), [])
         | Inr False \<Rightarrow>
             (case deserialize m of
                Inl e \<Rightarrow> (Inl e, [])
              | Inr obj \<Rightarrow> (Inr \<lparr>d_manifest = m, d_model = V1Deployment obj\<rparr>, [])))"

text \<open>
  What it means for an identity field to be missing or empty in a manifest: the manifest is
  a mapping, its \<^verbatim>\<open>metadata\<close> is absent or a mapping, and the field is absent there, null
  or the empty string.
\<close>

definition metadata_of :: "json \<Rightarrow> (string \<times> json) list option" where
  "metadata_of m =
     (case m of
        JObj kvs \<Rightarrow>
          (case map_of kvs ''metadata'' of
             None \<Rightarrow> Some []
           | Some (JObj md) \<Rightarrow> Some md
           | Some _ \<Rightarrow> None)
      | _ \<Rightarrow> None)"


section \<open>Properties of the watch loops\<close>

text \<open>One step of each loop, in terms of the named conditions.\<close>

lemma Pod_create_wait_Cons:
  "Pod_create_wait self (a # evs) =
     (if pod_ready self a
      then (True, [WatchStop, LogInfo (''Pod created '' @ pod_namespaced_name self)])
      else if pod_deleted self a
      then (False, [WatchStop, LogWarning (''Pod deleted '' @ pod_namespaced_name self)])
      else Pod_create_wait self evs)"
  by (simp add: pod_ready_def pod_deleted_def)

lemma Deployment_create_wait_Cons:
  "Deployment_create_wait self (a # evs) =
     (if dep_ready self a then (True, [WatchStop])
      else if dep_deleted self a then (False, [WatchStop])
      else Deployment_create_wait self evs)"
  by (simp add: dep_ready_def dep_deleted_def)

lemma PodManager_ready_loop_Cons:
  "PodManager_ready_loop self (a # evs) =
     (if pod_ready self a then (Some True, [Print (pod_name (pev_object a)), WatchStop])
      else if pev_type a = ''DELETED'' then (Some False, [WatchStop])
      else PodManager_ready_loop self evs)"
  by (simp add: pod_ready_def)

lemma DeploymentManager_ready_loop_Cons:
  "DeploymentManager_ready_loop self (a # evs) =
     (if dep_ready self a
      then (Some True, [Print (dev_type a), Print (dep_name (dev_object a)), WatchStop])
      else if dev_type a = ''DELETED'' then (Some False, [Print (dev_type a), WatchStop])
      else (fst (DeploymentManager_ready_loop self evs),
            Print (dev_type a) # snd (DeploymentManager_ready_loop self evs)))"
  by (auto simp: dep_ready_def split: prod.splits)

lemmas loop_Cons = Pod_create_wait_Cons Deployment_create_wait_Cons
  PodManager_ready_loop_Cons DeploymentManager_ready_loop_Cons

lemmas loop_simps2 = Pod_create_wait.simps(2) Deployment_create_wait.simps(2)
  PodManager_ready_loop.simps(2) DeploymentManager_ready_loop.simps(2)

lemma Pod_create_wait_skip:
  "\<forall>x\<in>set pre. \<not> pod_ready self x \<and> \<not> pod_deleted self x \<Longrightarrow>
   Pod_create_wait self (pre @ rest) = Pod_create_wait self rest"
  by (induction pre) (simp_all add: loop_Cons del: loop_simps2)

lemma Deployment_create_wait_skip:
  "\<forall>x\<in>set pre. \<not> dep_ready self x \<and> \<not> dep_deleted self x \<Longrightarrow>
   Deployment_create_wait self (pre @ rest) = Deployment_create_wait self rest"
  by (induction pre) (simp_all add: loop_Cons del: loop_simps2)

lemma PodManager_ready_loop_skip:
  "\<forall>x\<in>set pre. \<not> pod_ready self x \<and> pev_type x \<noteq> ''DELETED'' \<Longrightarrow>
   PodManager_ready_loop self (pre @ rest) = PodManager_ready_loop self rest"
  by (induction pre) (simp_all add: loop_Cons del: loop_simps2)

lemma DeploymentManager_ready_loop_skip:
  "\<forall>x\<in>set pre. \<not> dep_ready self x \<and> dev_type x \<noteq> ''DELETED'' \<Longrightarrow>
   fst (DeploymentManager_ready_loop self (pre @ rest)) =
     fst (DeploymentManager_ready_loop self rest)"
  by (induction pre) (simp_all add: loop_Cons del: loop_simps2)

lemma Pod_create_wait_resolved:
  "WatchStop \<in> set (snd (Pod_create_wait self evs)) \<Longrightarrow>
   Pod_create_wait self (evs @ later) = Pod_create_wait self evs"
  by (induction evs) (auto simp: loop_Cons simp del: loop_simps2 split: if_splits)

lemma Deployment_create_wait_resolved:
  "WatchStop \<in> set (snd (Deployment_create_wait self evs)) \<Longrightarrow>
   Deployment_create_wait self (evs @ later) = Deployment_create_wait self evs"
  by (induction evs) (auto simp: loop_Cons simp del: loop_simps2 split: if_splits)

lemma PodManager_ready_loop_resolved:
  "WatchStop \<in> set (snd (PodManager_ready_loop self evs)) \<Longrightarrow>
   PodManager_ready_loop self (evs @ later) = PodManager_ready_loop self evs"
  by (induction evs) (auto simp: loop_Cons simp del: loop_simps2 split: if_splits)

lemma DeploymentManager_ready_loop_resolved:
  "WatchStop \<in> set (snd (DeploymentManager_ready_loop self evs)) \<Longrightarrow>
   DeploymentManager_ready_loop self (evs @ later) = DeploymentManager_ready_loop self evs"
  by (induction evs) (auto simp: loop_Cons simp del: loop_simps2 split: if_splits)

lemma Pod_create_wait_stopped:
  "WatchStop \<in> set (snd (Pod_create_wait self evs)) \<or>
   Pod_create_wait self evs =
     (False, [LogWarning (''Unable to get created pod '' @ pod_namespaced_name self)])"
  by (induction evs) (auto simp: loop_Cons simp del: loop_simps2 split: if_splits)

lemma Deployment_create_wait_stopped:
  "WatchStop \<in> set (snd (Deployment_create_wait self evs)) \<or>
   Deployment_create_wait self evs =
     (False, [Print (''unable to get created deployment '' @ dep_namespaced_name self)])"
  by (induction evs) (auto simp: loop_Cons simp del: loop_simps2 split: if_splits)

lemma PodManager_ready_loop_stopped:
  "WatchStop \<in> set (snd (PodManager_ready_loop self evs)) \<or>
   PodManager_ready_loop self evs = (None, [])"
  by (induction evs) (auto simp: loop_Cons simp del: loop_simps2 split: if_splits)

lemma DeploymentManager_ready_loop_stopped:
  "WatchStop \<in> set (snd (DeploymentManager_ready_loop self evs)) \<or>
   fst (DeploymentManager_ready_loop self evs) = None"
  by (induction evs) (auto simp: loop_Cons simp del: loop_simps2 split: if_splits)

lemma Pod_create_wait_True:
  "fst (Pod_create_wait self evs) \<Longrightarrow> \<exists>x\<in>set evs. pod_ready self x"
  by (induction evs) (auto simp: loop_Cons simp del: loop_simps2 split: if_splits)

lemma Deployment_create_wait_True:
  "fst (Deployment_create_wait self evs) \<Longrightarrow> \<exists>x\<in>set evs. dep_ready self x"
  by (induction evs) (auto simp: loop_Cons simp del: loop_simps2 split: if_splits)

lemma PodManager_ready_loop_True:
  "fst (PodManager_ready_loop self evs) = Some True \<Longrightarrow> \<exists>x\<in>set evs. pod_ready self x"
  by (induction evs) (auto simp: loop_Cons simp del: loop_simps2 split: if_splits)

lemma DeploymentManager_ready_loop_True:
  "fst (DeploymentManager_ready_loop self evs) = Some True \<Longrightarrow> \<exists>x\<in>set evs. dep_ready self x"
  by (induction evs) (auto simp: loop_Cons simp del: loop_simps2 split: if_splits)

subsection \<open>A matching deletion\<close>

lemma Pod_create_wait_deleted:
  "\<forall>x\<in>set pre. \<not> pod_ready self x \<Longrightarrow> pod_deleted self e \<Longrightarrow> \<not> pod_ready self e \<Longrightarrow>
   Pod_create_wait self (pre @ e # post) =
     (False, [WatchStop, LogWarning (''Pod deleted '' @ pod_namespaced_name self)])"
  by (induction pre) (simp_all add: loop_Cons del: loop_simps2)

lemma Deployment_create_wait_deleted:
  "\<forall>x\<in>set pre. \<not> dep_ready self x \<Longrightarrow> dep_deleted self e \<Longrightarrow> \<not> dep_ready self e \<Longrightarrow>
   Deployment_create_wait self (pre @ e # post) = (False, [WatchStop])"
  by (induction pre) (simp_all add: loop_Cons del: loop_simps2)

lemma PodManager_ready_loop_deleted:
  "\<forall>x\<in>set pre. \<not> pod_ready self x \<Longrightarrow> pev_type e = ''DELETED'' \<Longrightarrow> \<not> pod_ready self e \<Longrightarrow>
   PodManager_ready_loop self (pre @ e # post) = (Some False, [WatchStop])"
  by (induction pre) (simp_all add: loop_Cons del: loop_simps2)

lemma DeploymentManager_ready_loop_deleted:
  "\<forall>x\<in>set pre. \<not> dep_ready self x \<Longrightarrow> dev_type e = ''DELETED'' \<Longrightarrow> \<not> dep_ready self e \<Longrightarrow>
   fst (DeploymentManager_ready_loop self (pre @ e # post)) = Some False"
  by (induction pre) (simp_all add: loop_Cons del: loop_simps2)

text \<open>
  Claim C1 says that a \<^verbatim>\<open>DELETED\<close> event with the target's name resolves Deleted. Every loop
  tests the readiness predicate first, so a \<^verbatim>\<open>DELETED\<close> event whose snapshot still has
  phase \<^verbatim>\<open>Running\<close> makes \<^verbatim>\<open>Pod.create\<close> return \<^verbatim>\<open>True\<close>.
\<close>

theorem C1_counterexample:
  "Pod_create_wait
     \<lparr>pod_name = ''sample-pod'', pod_namespace = ''default'', pod_uid = Some ''u-1'',
      pod_phase = Some ''Pending''\<rparr>
     [\<lparr>pev_type = ''DELETED'',
       pev_object = \<lparr>pod_name = ''sample-pod'', pod_namespace = ''default'',
                     pod_uid = Some ''u-1'', pod_phase = Some ''Running''\<rparr>\<rparr>]
   = (True, [WatchStop, LogInfo ''Pod created default/sample-pod''])"
  by (simp add: pod_namespaced_name_def)

text \<open>
  Claim C1, as the loops implement it: a \<^verbatim>\<open>DELETED\<close> event with the target's name whose
  snapshot does not satisfy the readiness predicate resolves Deleted (the loop returns
  \<^verbatim>\<open>False\<close> after stopping the watch), whatever follows it, provided no earlier event is
  ready for the target. This holds in particular when every ready event comes later.
\<close>

theorem C1_deleted_resolves_Deleted:
  "(pod_deleted self e \<and> \<not> pod_ready self e \<and> (\<forall>x\<in>set pre. \<not> pod_ready self x) \<longrightarrow>
      Pod_create_wait self (pre @ e # post) =
        (False, [WatchStop, LogWarning (''Pod deleted '' @ pod_namespaced_name self)])
      \<and> PodManager_ready_loop self (pre @ e # post) = (Some False, [WatchStop]))
   \<and> (dep_deleted d ev \<and> \<not> dep_ready d ev \<and> (\<forall>x\<in>set dpre. \<not> dep_ready d x) \<longrightarrow>
      Deployment_create_wait d (dpre @ ev # dpost) = (False, [WatchStop])
      \<and> fst (DeploymentManager_ready_loop d (dpre @ ev # dpost)) = Some False)"
proof (intro conjI impI)
  assume h: "pod_deleted self e \<and> \<not> pod_ready self e \<and> (\<forall>x\<in>set pre. \<not> pod_ready self x)"
  show "Pod_create_wait self (pre @ e # post) =
        (False, [WatchStop, LogWarning (''Pod deleted '' @ pod_namespaced_name self)])"
    using h by (simp add: Pod_create_wait_deleted)
  have "pev_type e = ''DELETED''" using h by (simp add: pod_deleted_def)
  then show "PodManager_ready_loop self (pre @ e # post) = (Some False, [WatchStop])"
    using h by (simp add: PodManager_ready_loop_deleted)
next
  assume h: "dep_deleted d ev \<and> \<not> dep_ready d ev \<and> (\<forall>x\<in>set dpre. \<not> dep_ready d x)"
  show "Deployment_create_wait d (dpre @ ev # dpost) = (False, [WatchStop])"
    using h by (simp add: Deployment_create_wait_deleted)
  have "dev_type ev = ''DELETED''" using h by (simp add: dep_deleted_def)
  then show "fst (DeploymentManager_ready_loop d (dpre @ ev # dpost)) = Some False"
    using h by (simp add: DeploymentManager_ready_loop_deleted)
qed

theorem C1_deleted_resolves_Deleted_witness:
  "Pod_create_wait
     \<lparr>pod_name = ''sample-pod'', pod_namespace = ''default'', pod_uid = Some ''u-1'',
      pod_phase = None\<rparr>
     [\<lparr>pev_type = ''ADDED'',
       pev_object = \<lparr>pod_name = ''sample-pod'', pod_namespace = ''default'',
                     pod_uid = Some ''u-1'', pod_phase = Some ''Pending''\<rparr>\<rparr>,
      \<lparr>pev_type = ''DELETED'',
       pev_object = \<lparr>pod_name = ''sample-pod'', pod_namespace = ''default'',
                     pod_uid = Some ''u-1'', pod_phase = Some ''Pending''\<rparr>\<rparr>,
      \<lparr>pev_type = ''MODIFIED'',
       pev_object = \<lparr>pod_name = ''sample-pod'', pod_namespace = ''default'',
                     pod_uid = Some ''u-2'', pod_phase = Some ''Running''\<rparr>\<rparr>]
     = (False, [WatchStop, LogWarning ''Pod deleted default/sample-pod''])
   \<and> Deployment_create_wait
     \<lparr>dep_name = ''nginx-deployment'', dep_namespace = ''default'', dep_uid = Some ''d-1'',
      dep_replicas = Some 3, dep_available_replicas = None\<rparr>
     [\<lparr>dev_type = ''DELETED'',
       dev_object = \<lparr>dep_name = ''nginx-deployment'', dep_namespace = ''default'',
                     dep_uid = Some ''d-1'', dep_replicas = Some 3,
                     dep_available_replicas = Some 2\<rparr>\<rparr>]
     = (False, [WatchStop])"
  using C1_deleted_resolves_Deleted
    [of "\<lparr>pod_name = ''sample-pod'', pod_namespace = ''default'', pod_uid = Some ''u-1'',
          pod_phase = None\<rparr>"
        "\<lparr>pev_type = ''DELETED'',
          pev_object = \<lparr>pod_name = ''sample-pod'', pod_namespace = ''default'',
                     pod_uid = Some ''u-1'', pod_phase = Some ''Pending''\<rparr>\<rparr>"
        "[\<lparr>pev_type = ''ADDED'',
          pev_object = \<lparr>pod_name = ''sample-pod'', pod_namespace = ''default'',
                     pod_uid = Some ''u-1'', pod_phase = Some ''Pending''\<rparr>\<rparr>]"
        "[\<lparr>pev_type = ''MODIFIED'',
          pev_object = \<lparr>pod_name = ''sample-pod'', pod_namespace = ''default'',
                     pod_uid = Some ''u-2'', pod_phase = Some ''Running''\<rparr>\<rparr>]"
        "\<lparr>dep_name = ''nginx-deployment'', dep_namespace = ''default'', dep_uid = Some ''d-1'',
          dep_replicas = Some 3, dep_available_replicas = None\<rparr>"
        "\<lparr>dev_type = ''DELETED'',
          dev_object = \<lparr>dep_name = ''nginx-deployment'', dep_namespace = ''default'',
                     dep_uid = Some ''d-1'', dep_replicas = Some 3,
                     dep_available_replicas = Some 2\<rparr>\<rparr>"
        "[]" "[]"]
  by (simp add: pod_deleted_def pod_ready_def dep_deleted_def dep_ready_def
      pod_namespaced_name_def)

subsection \<open>Events of other objects\<close>

lemma Pod_create_wait_ignores_other_names:
  "pod_name (pev_object e) \<noteq> pod_name self \<Longrightarrow>
   Pod_create_wait self (e # rest) = Pod_create_wait self rest"
  by simp

lemma Deployment_create_wait_ignores_other_names:
  "dep_name (dev_object e) \<noteq> dep_name self \<Longrightarrow>
   Deployment_create_wait self (e # rest) = Deployment_create_wait self rest"
  by simp

text \<open>
  Claim C2: an event whose object name differs from the target's never resolves the loop.
  The loops of \<^verbatim>\<open>model.py\<close> test the name in both branches (the two lemmas above). The
  loops of \<^verbatim>\<open>class_demo.py\<close> test it in the readiness branch only: there the deletion of
  any other object in the namespace ends the wait with \<^verbatim>\<open>False\<close>, and the target's own
  \<^verbatim>\<open>Running\<close> event that follows is never read.
\<close>

theorem C2_foreign_DELETED_resolves:
  "PodManager_ready_loop
     \<lparr>pod_name = ''sample-pod'', pod_namespace = ''default'', pod_uid = Some ''u-1'',
      pod_phase = Some ''Pending''\<rparr>
     [\<lparr>pev_type = ''DELETED'',
       pev_object = \<lparr>pod_name = ''other-pod'', pod_namespace = ''default'',
                     pod_uid = Some ''u-9'', pod_phase = Some ''Succeeded''\<rparr>\<rparr>,
      \<lparr>pev_type = ''MODIFIED'',
       pev_object = \<lparr>pod_name = ''sample-pod'', pod_namespace = ''default'',
                     pod_uid = Some ''u-1'', pod_phase = Some ''Running''\<rparr>\<rparr>]
     = (Some False, [WatchStop])
   \<and> DeploymentManager_ready_loop
     \<lparr>dep_name = ''nginx-deployment'', dep_namespace = ''default'', dep_uid = Some ''d-1'',
      dep_replicas = Some 3, dep_available_replicas = None\<rparr>
     [\<lparr>dev_type = ''DELETED'',
       dev_object = \<lparr>dep_name = ''other-deployment'', dep_namespace = ''default'',
                     dep_uid = Some ''d-9'', dep_replicas = Some 1,
                     dep_available_replicas = Some 1\<rparr>\<rparr>,
      \<lparr>dev_type = ''MODIFIED'',
       dev_object = \<lparr>dep_name = ''nginx-deployment'', dep_namespace = ''default'',
                     dep_uid = Some ''d-1'', dep_replicas = Some 3,
                     dep_available_replicas = Some 3\<rparr>\<rparr>]
     = (Some False, [Print ''DELETED'', WatchStop])"
  by simp

subsection \<open>The end of the stream\<close>

text \<open>
  In \<^verbatim>\<open>model.py\<close> a stream without an event that is ready or deleted for the target ends in
  the timeout return, an ordinary value, and a wait loop has three ways to return.
\<close>

lemma Pod_create_wait_timeout:
  "\<forall>x\<in>set evs. \<not> pod_ready self x \<and> \<not> pod_deleted self x \<Longrightarrow>
   Pod_create_wait self evs =
     (False, [LogWarning (''Unable to get created pod '' @ pod_namespaced_name self)])"
  using Pod_create_wait_skip [of evs self "[]"] by simp

lemma Deployment_create_wait_timeout:
  "\<forall>x\<in>set evs. \<not> dep_ready self x \<and> \<not> dep_deleted self x \<Longrightarrow>
   Deployment_create_wait self evs =
     (False, [Print (''unable to get created deployment '' @ dep_namespaced_name self)])"
  using Deployment_create_wait_skip [of evs self "[]"] by simp

lemma Pod_create_wait_outcomes:
  "Pod_create_wait self evs \<in>
     {(True, [WatchStop, LogInfo (''Pod created '' @ pod_namespaced_name self)]),
      (False, [WatchStop, LogWarning (''Pod deleted '' @ pod_namespaced_name self)]),
      (False, [LogWarning (''Unable to get created pod '' @ pod_namespaced_name self)])}"
  by (induction evs) (simp_all add: loop_Cons del: loop_simps2)

lemma Deployment_create_wait_outcomes:
  "Deployment_create_wait self evs \<in>
     {(True, [WatchStop]), (False, [WatchStop]),
      (False, [Print (''unable to get created deployment '' @ dep_namespaced_name self)])}"
  by (induction evs) (simp_all add: loop_Cons del: loop_simps2)

lemma PodManager_ready_loop_timeout:
  "\<forall>x\<in>set evs. \<not> pod_ready self x \<and> pev_type x \<noteq> ''DELETED'' \<Longrightarrow>
   PodManager_ready_loop self evs = (None, [])"
  using PodManager_ready_loop_skip [of evs self "[]"] by simp

text \<open>
  Claim C4: when neither an event that is ready for the target nor a \<^verbatim>\<open>DELETED\<close> event of
  the target arrives, the loop resolves TimedOut. In \<^verbatim>\<open>PodManager.ready\<close> a stream whose only
  event is the deletion of another pod has no such event, yet the loop returns \<^verbatim>\<open>False\<close>
  (Deleted) where the empty stream returns \<^verbatim>\<open>None\<close> (TimedOut).
\<close>

theorem C4_foreign_DELETED_is_not_TimedOut:
  "\<not> pod_ready
       \<lparr>pod_name = ''sample-pod'', pod_namespace = ''default'', pod_uid = Some ''u-1'',
        pod_phase = Some ''Pending''\<rparr>
       \<lparr>pev_type = ''DELETED'',
        pev_object = \<lparr>pod_name = ''other-pod'', pod_namespace = ''default'',
                      pod_uid = Some ''u-9'', pod_phase = Some ''Running''\<rparr>\<rparr>
   \<and> \<not> pod_deleted
       \<lparr>pod_name = ''sample-pod'', pod_namespace = ''default'', pod_uid = Some ''u-1'',
        pod_phase = Some ''Pending''\<rparr>
       \<lparr>pev_type = ''DELETED'',
        pev_object = \<lparr>pod_name = ''other-pod'', pod_namespace = ''default'',
                      pod_uid = Some ''u-9'', pod_phase = Some ''Running''\<rparr>\<rparr>
   \<and> PodManager_ready_loop
       \<lparr>pod_name = ''sample-pod'', pod_namespace = ''default'', pod_uid = Some ''u-1'',
        pod_phase = Some ''Pending''\<rparr>
       [\<lparr>pev_type = ''DELETED'',
         pev_object = \<lparr>pod_name = ''other-pod'', pod_namespace = ''default'',
                       pod_uid = Some ''u-9'', pod_phase = Some ''Running''\<rparr>\<rparr>]
     = (Some False, [WatchStop])
   \<and> PodManager_ready_loop
       \<lparr>pod_name = ''sample-pod'', pod_namespace = ''default'', pod_uid = Some ''u-1'',
        pod_phase = Some ''Pending''\<rparr>
       [] = (None, [])"
  by (simp add: pod_ready_def pod_deleted_def)

subsection \<open>Ready at the first matching event\<close>

text \<open>
  For each loop: Ready at the first ready event when no earlier event ended the wait, with
  the same result whatever follows; Ready only when the stream has a first ready event;
  nothing is read after \<^verbatim>\<open>watch.stop()\<close>; and every return other than the one at the end
  of the stream comes after \<^verbatim>\<open>watch.stop()\<close>. What ends the wait early is a deletion of the
  target in \<^verbatim>\<open>model.py\<close>, and a deletion of any object in \<^verbatim>\<open>class_demo.py\<close>.
\<close>

lemma Pod_create_wait_first_ready:
  "(pod_ready self e \<and> (\<forall>x\<in>set pre. \<not> pod_ready self x \<and> \<not> pod_deleted self x) \<longrightarrow>
      Pod_create_wait self (pre @ e # post) =
        (True, [WatchStop, LogInfo (''Pod created '' @ pod_namespaced_name self)]))
   \<and> (fst (Pod_create_wait self evs) \<longrightarrow>
        (\<exists>pre e post. evs = pre @ e # post \<and> pod_ready self e
           \<and> (\<forall>x\<in>set pre. \<not> pod_ready self x)))
   \<and> (WatchStop \<in> set (snd (Pod_create_wait self evs)) \<longrightarrow>
        Pod_create_wait self (evs @ later) = Pod_create_wait self evs)
   \<and> (WatchStop \<in> set (snd (Pod_create_wait self evs)) \<or>
        Pod_create_wait self evs =
          (False, [LogWarning (''Unable to get created pod '' @ pod_namespaced_name self)]))"
proof (intro conjI impI)
  assume "pod_ready self e \<and> (\<forall>x\<in>set pre. \<not> pod_ready self x \<and> \<not> pod_deleted self x)"
  then show "Pod_create_wait self (pre @ e # post) =
        (True, [WatchStop, LogInfo (''Pod created '' @ pod_namespaced_name self)])"
    by (simp add: Pod_create_wait_skip Pod_create_wait_Cons del: loop_simps2)
next
  assume "fst (Pod_create_wait self evs)"
  then have "\<exists>x\<in>set evs. pod_ready self x" by (rule Pod_create_wait_True)
  then show "\<exists>pre e post. evs = pre @ e # post \<and> pod_ready self e
           \<and> (\<forall>x\<in>set pre. \<not> pod_ready self x)"
    by (rule split_list_first_prop)
next
  assume "WatchStop \<in> set (snd (Pod_create_wait self evs))"
  then show "Pod_create_wait self (evs @ later) = Pod_create_wait self evs"
    by (rule Pod_create_wait_resolved)
next
  show "WatchStop \<in> set (snd (Pod_create_wait self evs)) \<or>
        Pod_create_wait self evs =
          (False, [LogWarning (''Unable to get created pod '' @ pod_namespaced_name self)])"
    by (rule Pod_create_wait_stopped)
qed

lemma PodManager_ready_loop_first_ready:
  "(pod_ready self e \<and> (\<forall>x\<in>set pre. \<not> pod_ready self x \<and> pev_type x \<noteq> ''DELETED'') \<longrightarrow>
      PodManager_ready_loop self (pre @ e # post) =
        (Some True, [Print (pod_name (pev_object e)), WatchStop]))
   \<and> (fst (PodManager_ready_loop self evs) = Some True \<longrightarrow>
        (\<exists>pre e post. evs = pre @ e # post \<and> pod_ready self e
           \<and> (\<forall>x\<in>set pre. \<not> pod_ready self x)))
   \<and> (WatchStop \<in> set (snd (PodManager_ready_loop self evs)) \<longrightarrow>
        PodManager_ready_loop self (evs @ later) = PodManager_ready_loop self evs)
   \<and> (WatchStop \<in> set (snd (PodManager_ready_loop self evs)) \<or>
        PodManager_ready_loop self evs = (None, []))"
proof (intro conjI impI)
  assume "pod_ready self e \<and> (\<forall>x\<in>set pre. \<not> pod_ready self x \<and> pev_type x \<noteq> ''DELETED'')"
  then show "PodManager_ready_loop self (pre @ e # post) =
        (Some True, [Print (pod_name (pev_object e)), WatchStop])"
    by (simp add: PodManager_ready_loop_skip PodManager_ready_loop_Cons del: loop_simps2)
next
  assume "fst (PodManager_ready_loop self evs) = Some True"
  then have "\<exists>x\<in>set evs. pod_ready self x" by (rule PodManager_ready_loop_True)
  then show "\<exists>pre e post. evs = pre @ e # post \<and> pod_ready self e
           \<and> (\<forall>x\<in>set pre. \<not> pod_ready self x)"
    by (rule split_list_first_prop)
next
  assume "WatchStop \<in> set (snd (PodManager_ready_loop self evs))"
  then show "PodManager_ready_loop self (evs @ later) = PodManager_ready_loop self evs"
    by (rule PodManager_ready_loop_resolved)
next
  show "WatchStop \<in> set (snd (PodManager_ready_loop self evs)) \<or>
        PodManager_ready_loop self evs = (None, [])"
    by (rule PodManager_ready_loop_stopped)
qed

lemma Deployment_create_wait_first_ready:
  "(dep_ready d ev \<and> (\<forall>x\<in>set dpre. \<not> dep_ready d x \<and> \<not> dep_deleted d x) \<longrightarrow>
      Deployment_create_wait d (dpre @ ev # dpost) = (True, [WatchStop]))
   \<and> (fst (Deployment_create_wait d devs) \<longrightarrow>
        (\<exists>pre e post. devs = pre @ e # post \<and> dep_ready d e
           \<and> (\<forall>x\<in>set pre. \<not> dep_ready d x)))
   \<and> (WatchStop \<in> set (snd (Deployment_create_wait d devs)) \<longrightarrow>
        Deployment_create_wait d (devs @ dlater) = Deployment_create_wait d devs)
   \<and> (WatchStop \<in> set (snd (Deployment_create_wait d devs)) \<or>
        Deployment_create_wait d devs =
          (False, [Print (''unable to get created deployment '' @ dep_namespaced_name d)]))"
proof (intro conjI impI)
  assume "dep_ready d ev \<and> (\<forall>x\<in>set dpre. \<not> dep_ready d x \<and> \<not> dep_deleted d x)"
  then show "Deployment_create_wait d (dpre @ ev # dpost) = (True, [WatchStop])"
    by (simp add: Deployment_create_wait_skip Deployment_create_wait_Cons del: loop_simps2)
next
  assume "fst (Deployment_create_wait d devs)"
  then have "\<exists>x\<in>set devs. dep_ready d x" by (rule Deployment_create_wait_True)
  then show "\<exists>pre e post. devs = pre @ e # post \<and> dep_ready d e
           \<and> (\<forall>x\<in>set pre. \<not> dep_ready d x)"
    by (rule split_list_first_prop)
next
  assume "WatchStop \<in> set (snd (Deployment_create_wait d devs))"
  then show "Deployment_create_wait d (devs @ dlater) = Deployment_create_wait d devs"
    by (rule Deployment_create_wait_resolved)
next
  show "WatchStop \<in> set (snd (Deployment_create_wait d devs)) \<or>
        Deployment_create_wait d devs =
          (False, [Print (''unable to get created deployment '' @ dep_namespaced_name d)])"
    by (rule Deployment_create_wait_stopped)
qed

lemma DeploymentManager_ready_loop_first_ready:
  "(dep_ready d ev \<and> (\<forall>x\<in>set dpre. \<not> dep_ready d x \<and> dev_type x \<noteq> ''DELETED'') \<longrightarrow>
      fst (DeploymentManager_ready_loop d (dpre @ ev # dpost)) = Some True)
   \<and> (fst (DeploymentManager_ready_loop d devs) = Some True \<longrightarrow>
        (\<exists>pre e post. devs = pre @ e # post \<and> dep_ready d e
           \<and> (\<forall>x\<in>set pre. \<not> dep_ready d x)))
   \<and> (WatchStop \<in> set (snd (DeploymentManager_ready_loop d devs)) \<longrightarrow>
        DeploymentManager_ready_loop d (devs @ dlater) = DeploymentManager_ready_loop d devs)
   \<and> (WatchStop \<in> set (snd (DeploymentManager_ready_loop d devs)) \<or>
        fst (DeploymentManager_ready_loop d devs) = None)"
proof (intro conjI impI)
  assume "dep_ready d ev \<and> (\<forall>x\<in>set dpre. \<not> dep_ready d x \<and> dev_type x \<noteq> ''DELETED'')"
  then show "fst (DeploymentManager_ready_loop d (dpre @ ev # dpost)) = Some True"
    by (simp add: DeploymentManager_ready_loop_skip DeploymentManager_ready_loop_Cons
        del: loop_simps2)
next
  assume "fst (DeploymentManager_ready_loop d devs) = Some True"
  then have "\<exists>x\<in>set devs. dep_ready d x" by (rule DeploymentManager_ready_loop_True)
  then show "\<exists>pre e post. devs = pre @ e # post \<and> dep_ready d e
           \<and> (\<forall>x\<in>set pre. \<not> dep_ready d x)"
    by (rule split_list_first_prop)
next
  assume "WatchStop \<in> set (snd (DeploymentManager_ready_loop d devs))"
  then show "DeploymentManager_ready_loop d (devs @ dlater) = DeploymentManager_ready_loop d devs"
    by (rule DeploymentManager_ready_loop_resolved)
next
  show "WatchStop \<in> set (snd (DeploymentManager_ready_loop d devs)) \<or>
        fst (DeploymentManager_ready_loop d devs) = None"
    by (rule DeploymentManager_ready_loop_stopped)
qed

text \<open>
  Claim C5: for every event stream the loop resolves Ready at the first event that is ready
  for the target, and reads nothing after it has resolved. The loops of \<^verbatim>\<open>model.py\<close> do
  (\<open>Pod_create_wait_first_ready\<close>, \<open>Deployment_create_wait_first_ready\<close>), and no loop reads
  an event after \<^verbatim>\<open>watch.stop()\<close>. In the streams below the first event is the deletion of
  another object and the second is the target's ready event: nothing before the second
  event is ready for the target or a deletion of it, and \<^verbatim>\<open>Pod.create\<close> and
  \<^verbatim>\<open>Deployment.create\<close> resolve Ready there, but \<^verbatim>\<open>PodManager.ready\<close> and
  \<^verbatim>\<open>DeploymentManager.ready\<close> have returned \<^verbatim>\<open>False\<close> at the first event and never read the
  ready one.
\<close>

theorem C5_ready_missed_after_foreign_DELETED:
  "\<not> pod_ready
       \<lparr>pod_name = ''sample-pod'', pod_namespace = ''default'', pod_uid = Some ''u-1'',
        pod_phase = Some ''Pending''\<rparr>
       \<lparr>pev_type = ''DELETED'',
        pev_object = \<lparr>pod_name = ''other-pod'', pod_namespace = ''default'',
                      pod_uid = Some ''u-7'', pod_phase = Some ''Failed''\<rparr>\<rparr>
   \<and> \<not> pod_deleted
       \<lparr>pod_name = ''sample-pod'', pod_namespace = ''default'', pod_uid = Some ''u-1'',
        pod_phase = Some ''Pending''\<rparr>
       \<lparr>pev_type = ''DELETED'',
        pev_object = \<lparr>pod_name = ''other-pod'', pod_namespace = ''default'',
                      pod_uid = Some ''u-7'', pod_phase = Some ''Failed''\<rparr>\<rparr>
   \<and> pod_ready
       \<lparr>pod_name = ''sample-pod'', pod_namespace = ''default'', pod_uid = Some ''u-1'',
        pod_phase = Some ''Pending''\<rparr>
       \<lparr>pev_type = ''MODIFIED'',
        pev_object = \<lparr>pod_name = ''sample-pod'', pod_namespace = ''default'',
                      pod_uid = Some ''u-1'', pod_phase = Some ''Running''\<rparr>\<rparr>
   \<and> Pod_create_wait
       \<lparr>pod_name = ''sample-pod'', pod_namespace = ''default'', pod_uid = Some ''u-1'',
        pod_phase = Some ''Pending''\<rparr>
       [\<lparr>pev_type = ''DELETED'',
         pev_object = \<lparr>pod_name = ''other-pod'', pod_namespace = ''default'',
                       pod_uid = Some ''u-7'', pod_phase = Some ''Failed''\<rparr>\<rparr>,
        \<lparr>pev_type = ''MODIFIED'',
         pev_object = \<lparr>pod_name = ''sample-pod'', pod_namespace = ''default'',
                       pod_uid = Some ''u-1'', pod_phase = Some ''Running''\<rparr>\<rparr>]
     = (True, [WatchStop, LogInfo ''Pod created default/sample-pod''])
   \<and> PodManager_ready_loop
       \<lparr>pod_name = ''sample-pod'', pod_namespace = ''default'', pod_uid = Some ''u-1'',
        pod_phase = Some ''Pending''\<rparr>
       [\<lparr>pev_type = ''DELETED'',
         pev_object = \<lparr>pod_name = ''other-pod'', pod_namespace = ''default'',
                       pod_uid = Some ''u-7'', pod_phase = Some ''Failed''\<rparr>\<rparr>,
        \<lparr>pev_type = ''MODIFIED'',
         pev_object = \<lparr>pod_name = ''sample-pod'', pod_namespace = ''default'',
                       pod_uid = Some ''u-1'', pod_phase = Some ''Running''\<rparr>\<rparr>]
     = (Some False, [WatchStop])
   \<and> Deployment_create_wait
       \<lparr>dep_name = ''nginx-deployment'', dep_namespace = ''default'', dep_uid = Some ''d-1'',
        dep_replicas = Some 3, dep_available_replicas = None\<rparr>
       [\<lparr>dev_type = ''DELETED'',
         dev_object = \<lparr>dep_name = ''old-deployment'', dep_namespace = ''default'',
                       dep_uid = Some ''d-7'', dep_replicas = Some 2,
                       dep_available_replicas = Some 0\<rparr>\<rparr>,
        \<lparr>dev_type = ''MODIFIED'',
         dev_object = \<lparr>dep_name = ''nginx-deployment'', dep_namespace = ''default'',
                       dep_uid = Some ''d-1'', dep_replicas = Some 3,
                       dep_available_replicas = Some 3\<rparr>\<rparr>]
     = (True, [WatchStop])
   \<and> DeploymentManager_ready_loop
       \<lparr>dep_name = ''nginx-deployment'', dep_namespace = ''default'', dep_uid = Some ''d-1'',
        dep_replicas = Some 3, dep_available_replicas = None\<rparr>
       [\<lparr>dev_type = ''DELETED'',
         dev_object = \<lparr>dep_name = ''old-deployment'', dep_namespace = ''default'',
                       dep_uid = Some ''d-7'', dep_replicas = Some 2,
                       dep_available_replicas = Some 0\<rparr>\<rparr>,
        \<lparr>dev_type = ''MODIFIED'',
         dev_object = \<lparr>dep_name = ''nginx-deployment'', dep_namespace = ''default'',
                       dep_uid = Some ''d-1'', dep_replicas = Some 3,
                       dep_available_replicas = Some 3\<rparr>\<rparr>]
     = (Some False, [Print ''DELETED'', WatchStop])"
  by (simp add: pod_ready_def pod_deleted_def pod_namespaced_name_def)

subsection \<open>Events that are neither ready nor deletions\<close>

lemma pod_skip_conditions:
  "pod_name (pev_object e) = pod_name self \<and> pev_type e \<noteq> ''DELETED''
     \<and> pod_phase (pev_object e) \<noteq> Some ''Running'' \<Longrightarrow>
   \<not> pod_ready self e \<and> \<not> pod_deleted self e"
  by (simp add: pod_ready_def pod_deleted_def)

lemma dep_skip_conditions:
  "dep_name (dev_object ev) = dep_name d \<and> dev_type ev \<noteq> ''DELETED''
     \<and> dep_available_replicas (dev_object ev) \<noteq> dep_replicas d \<Longrightarrow>
   \<not> dep_ready d ev \<and> \<not> dep_deleted d ev"
  by (simp add: dep_ready_def dep_deleted_def)

text \<open>
  Claim C6: an event with the target's name that is not a \<^verbatim>\<open>DELETED\<close> event and does not
  satisfy the readiness predicate is skipped, the loop goes on with the next event, and a
  ready event right after it resolves Ready. (\<^verbatim>\<open>DeploymentManager.ready\<close> prints the type of
  every event it reads, the skipped one included.)
\<close>

theorem C6_unready_event_skipped:
  "(pod_name (pev_object e) = pod_name self \<and> pev_type e \<noteq> ''DELETED''
      \<and> pod_phase (pev_object e) \<noteq> Some ''Running'' \<longrightarrow>
      Pod_create_wait self (e # rest) = Pod_create_wait self rest
      \<and> PodManager_ready_loop self (e # rest) = PodManager_ready_loop self rest
      \<and> (pod_ready self e' \<longrightarrow>
           Pod_create_wait self (e # e' # rest) =
             (True, [WatchStop, LogInfo (''Pod created '' @ pod_namespaced_name self)])
           \<and> PodManager_ready_loop self (e # e' # rest) =
             (Some True, [Print (pod_name (pev_object e')), WatchStop])))
   \<and> (dep_name (dev_object ev) = dep_name d \<and> dev_type ev \<noteq> ''DELETED''
      \<and> dep_available_replicas (dev_object ev) \<noteq> dep_replicas d \<longrightarrow>
      Deployment_create_wait d (ev # drest) = Deployment_create_wait d drest
      \<and> DeploymentManager_ready_loop d (ev # drest) =
          (fst (DeploymentManager_ready_loop d drest),
           Print (dev_type ev) # snd (DeploymentManager_ready_loop d drest))
      \<and> (dep_ready d ev' \<longrightarrow>
           Deployment_create_wait d (ev # ev' # drest) = (True, [WatchStop])
           \<and> DeploymentManager_ready_loop d (ev # ev' # drest) =
             (Some True, [Print (dev_type ev), Print (dev_type ev'),
                          Print (dep_name (dev_object ev')), WatchStop])))"
proof (intro conjI impI)
  assume h: "pod_name (pev_object e) = pod_name self \<and> pev_type e \<noteq> ''DELETED''
      \<and> pod_phase (pev_object e) \<noteq> Some ''Running''"
  have n: "\<not> pod_ready self e \<and> \<not> pod_deleted self e"
    using h by (rule pod_skip_conditions)
  show "Pod_create_wait self (e # rest) = Pod_create_wait self rest"
    using n by (simp add: Pod_create_wait_Cons del: loop_simps2)
  show "PodManager_ready_loop self (e # rest) = PodManager_ready_loop self rest"
    using n h by (simp add: PodManager_ready_loop_Cons del: loop_simps2)
  assume r: "pod_ready self e'"
  show "Pod_create_wait self (e # e' # rest) =
             (True, [WatchStop, LogInfo (''Pod created '' @ pod_namespaced_name self)])"
    using n r by (simp add: Pod_create_wait_Cons del: loop_simps2)
  show "PodManager_ready_loop self (e # e' # rest) =
             (Some True, [Print (pod_name (pev_object e')), WatchStop])"
    using n h r by (simp add: PodManager_ready_loop_Cons del: loop_simps2)
next
  assume h: "dep_name (dev_object ev) = dep_name d \<and> dev_type ev \<noteq> ''DELETED''
      \<and> dep_available_replicas (dev_object ev) \<noteq> dep_replicas d"
  have n: "\<not> dep_ready d ev \<and> \<not> dep_deleted d ev"
    using h by (rule dep_skip_conditions)
  show "Deployment_create_wait d (ev # drest) = Deployment_create_wait d drest"
    using n by (simp add: Deployment_create_wait_Cons del: loop_simps2)
  show "DeploymentManager_ready_loop d (ev # drest) =
          (fst (DeploymentManager_ready_loop d drest),
           Print (dev_type ev) # snd (DeploymentManager_ready_loop d drest))"
    using n h by (simp add: DeploymentManager_ready_loop_Cons del: loop_simps2)
  assume r: "dep_ready d ev'"
  show "Deployment_create_wait d (ev # ev' # drest) = (True, [WatchStop])"
    using n r by (simp add: Deployment_create_wait_Cons del: loop_simps2)
  show "DeploymentManager_ready_loop d (ev # ev' # drest) =
             (Some True, [Print (dev_type ev), Print (dev_type ev'),
                          Print (dep_name (dev_object ev')), WatchStop])"
    using n h r by (simp add: DeploymentManager_ready_loop_Cons del: loop_simps2)
qed

theorem C6_unready_event_skipped_witness:
  "Pod_create_wait
     \<lparr>pod_name = ''sample-pod'', pod_namespace = ''default'', pod_uid = Some ''u-1'',
      pod_phase = None\<rparr>
     [\<lparr>pev_type = ''MODIFIED'',
       pev_object = \<lparr>pod_name = ''sample-pod'', pod_namespace = ''default'',
                     pod_uid = Some ''u-1'', pod_phase = Some ''Pending''\<rparr>\<rparr>,
      \<lparr>pev_type = ''MODIFIED'',
       pev_object = \<lparr>pod_name = ''sample-pod'', pod_namespace = ''default'',
                     pod_uid = Some ''u-1'', pod_phase = Some ''Running''\<rparr>\<rparr>]
     = (True, [WatchStop, LogInfo ''Pod created default/sample-pod''])
   \<and> DeploymentManager_ready_loop
     \<lparr>dep_name = ''nginx-deployment'', dep_namespace = ''default'', dep_uid = Some ''d-1'',
      dep_replicas = Some 3, dep_available_replicas = None\<rparr>
     [\<lparr>dev_type = ''MODIFIED'',
       dev_object = \<lparr>dep_name = ''nginx-deployment'', dep_namespace = ''default'',
                     dep_uid = Some ''d-1'', dep_replicas = Some 3,
                     dep_available_replicas = Some 2\<rparr>\<rparr>,
      \<lparr>dev_type = ''MODIFIED'',
       dev_object = \<lparr>dep_name = ''nginx-deployment'', dep_namespace = ''default'',
                     dep_uid = Some ''d-1'', dep_replicas = Some 3,
                     dep_available_replicas = Some 3\<rparr>\<rparr>]
     = (Some True, [Print ''MODIFIED'', Print ''MODIFIED'', Print ''nginx-deployment'',
                    WatchStop])"
  using C6_unready_event_skipped
    [where self = "\<lparr>pod_name = ''sample-pod'', pod_namespace = ''default'',
                     pod_uid = Some ''u-1'', pod_phase = None\<rparr>"
       and e = "\<lparr>pev_type = ''MODIFIED'',
                 pev_object = \<lparr>pod_name = ''sample-pod'', pod_namespace = ''default'',
                   pod_uid = Some ''u-1'', pod_phase = Some ''Pending''\<rparr>\<rparr>"
       and e' = "\<lparr>pev_type = ''MODIFIED'',
                 pev_object = \<lparr>pod_name = ''sample-pod'', pod_namespace = ''default'',
                   pod_uid = Some ''u-1'', pod_phase = Some ''Running''\<rparr>\<rparr>"
       and rest = "[]"
       and d = "\<lparr>dep_name = ''nginx-deployment'', dep_namespace = ''default'',
                  dep_uid = Some ''d-1'', dep_replicas = Some 3,
                  dep_available_replicas = None\<rparr>"
       and ev = "\<lparr>dev_type = ''MODIFIED'',
                  dev_object = \<lparr>dep_name = ''nginx-deployment'', dep_namespace = ''default'',
                    dep_uid = Some ''d-1'', dep_replicas = Some 3,
                    dep_available_replicas = Some 2\<rparr>\<rparr>"
       and ev' = "\<lparr>dev_type = ''MODIFIED'',
                  dev_object = \<lparr>dep_name = ''nginx-deployment'', dep_namespace = ''default'',
                    dep_uid = Some ''d-1'', dep_replicas = Some 3,
                    dep_available_replicas = Some 3\<rparr>\<rparr>"
       and drest = "[]"]
  by (simp add: pod_ready_def dep_ready_def pod_namespaced_name_def)

section \<open>Merging a partial manifest\<close>

lemma map_of_dict_set:
  "map_of (dict_set k v kvs) = (map_of kvs)(k \<mapsto> v)"
  by (induction kvs) auto

lemma dict_set_same:
  "map_of kvs k = Some v \<Longrightarrow> dict_set k v kvs = kvs"
  by (induction kvs) (auto split: if_splits)

text \<open>
  Merging an override into a mapping that already holds, under every key of the override,
  a value the override's value merges into without change, changes nothing.
\<close>

lemma merge_obj_absorb:
  "(\<And>k v. (k, v) \<in> set h \<Longrightarrow> \<exists>rv. map_of r k = Some rv \<and> merge rv v = rv) \<Longrightarrow>
   merge_obj r h = r"
proof (induction h arbitrary: r)
  case Nil
  then show ?case by simp
next
  case (Cons kv h)
  obtain k v where kv: "kv = (k, v)" by (cases kv)
  from Cons.prems [of k v] kv obtain rv where rv: "map_of r k = Some rv" "merge rv v = rv"
    by auto
  have "dict_set k (case map_of r k of None \<Rightarrow> v | Some bv \<Rightarrow> merge bv v) r = r"
    using rv by (simp add: dict_set_same)
  moreover have "merge_obj r h = r"
    using Cons.prems by (intro Cons.IH) auto
  ultimately show ?case using kv by simp
qed

lemma map_of_merge_obj_other:
  "k \<notin> fst ` set h \<Longrightarrow> map_of (merge_obj b h) k = map_of b k"
  by (induction h arbitrary: b) (auto simp: map_of_dict_set)

lemma map_of_merge_obj_key:
  "distinct (map fst h) \<Longrightarrow> (k, v) \<in> set h \<Longrightarrow>
   map_of (merge_obj b h) k = Some (case map_of b k of None \<Rightarrow> v | Some bv \<Rightarrow> merge bv v)"
proof (induction h arbitrary: b)
  case Nil
  then show ?case by simp
next
  case (Cons kv h)
  obtain k' v' where kv: "kv = (k', v')" by (cases kv)
  show ?case
  proof (cases "k = k'")
    case True
    then have "v = v'" and notin: "k \<notin> fst ` set h"
      using Cons.prems kv by (auto simp: image_iff)
    then show ?thesis
      using kv True
      by (simp add: map_of_merge_obj_other map_of_dict_set split: option.split)
  next
    case False
    then have "(k, v) \<in> set h" "distinct (map fst h)"
      using Cons.prems kv by auto
    then have "map_of (merge_obj (dict_set k' (case map_of b k' of None \<Rightarrow> v' | Some bv \<Rightarrow> merge bv v') b) h) k
      = Some (case map_of (dict_set k' (case map_of b k' of None \<Rightarrow> v' | Some bv \<Rightarrow> merge bv v') b) k of
                None \<Rightarrow> v | Some bv \<Rightarrow> merge bv v)"
      by (rule Cons.IH [rotated -1])
    then show ?thesis using kv False by (simp add: map_of_dict_set)
  qed
qed

lemma merge_obj_idem:
  assumes d: "distinct (map fst h)"
    and v: "\<And>k v b. (k, v) \<in> set h \<Longrightarrow> merge (merge b v) v = merge b v"
  shows "merge_obj (merge_obj b h) h = merge_obj b h"
proof (rule merge_obj_absorb)
  fix k v
  assume kv: "(k, v) \<in> set h"
  have m: "map_of (merge_obj b h) k =
     Some (case map_of b k of None \<Rightarrow> v | Some bv \<Rightarrow> merge bv v)"
    using d kv by (rule map_of_merge_obj_key)
  have "merge (merge JNull v) v = merge JNull v" using kv by (rule v)
  then have self: "merge v v = v" by simp
  have "merge (case map_of b k of None \<Rightarrow> v | Some bv \<Rightarrow> merge bv v) v =
        (case map_of b k of None \<Rightarrow> v | Some bv \<Rightarrow> merge bv v)"
    using self v [OF kv] by (simp split: option.split)
  then show "\<exists>rv. map_of (merge_obj b h) k = Some rv \<and> merge rv v = rv"
    using m by simp
qed

lemma merge_leaf:
  "merge b JNull = JNull"
  "merge b (JBool x) = JBool x"
  "merge b (JNum n) = JNum n"
  "merge b (JStr t) = JStr t"
  "merge b (JArr xs) = JArr xs"
  by (cases b; simp)+

lemma merge_idem_aux:
  "(wf_json p \<longrightarrow> (\<forall>b. merge (merge b p) p = merge b p))"
  "(wf_items h \<longrightarrow> (\<forall>k v b. (k, v) \<in> set h \<longrightarrow> merge (merge b v) v = merge b v))"
proof (induction p and h rule: wf_json_wf_items.induct)
  case (1 kvs)
  show ?case
  proof (intro impI allI)
    fix b
    assume w: "wf_json (JObj kvs)"
    then have d: "distinct (map fst kvs)" and i: "wf_items kvs" by simp_all
    have vs: "\<And>k v b. (k, v) \<in> set kvs \<Longrightarrow> merge (merge b v) v = merge b v"
      using 1 i by blast
    have self: "merge_obj kvs kvs = kvs"
    proof (rule merge_obj_absorb)
      fix k v assume kv: "(k, v) \<in> set kvs"
      have "merge (merge JNull v) v = merge JNull v" using kv by (rule vs)
      then have "merge v v = v" by simp
      moreover have "map_of kvs k = Some v" using d kv by simp
      ultimately show "\<exists>rv. map_of kvs k = Some rv \<and> merge rv v = rv" by simp
    qed
    show "merge (merge b (JObj kvs)) (JObj kvs) = merge b (JObj kvs)"
    proof (cases b)
      case (JObj bl)
      then show ?thesis using merge_obj_idem [OF d vs] by simp
    qed (simp_all add: self)
  qed
next
  case (5 k v kvs)
  then show ?case by auto
qed (simp_all add: merge_leaf)

text \<open>
  Claim C7: merging the same partial manifest a second time changes nothing, for the merge
  itself and for \<^verbatim>\<open>merge_partial_manifest\<close> on an entity, for every base document and every
  well-formed partial document.
\<close>

theorem C7_merge_idempotent:
  "wf_json partial_manifest \<Longrightarrow>
   merge (merge base partial_manifest) partial_manifest = merge base partial_manifest
   \<and> merge_partial_manifest (merge_partial_manifest s partial_manifest) partial_manifest
       = merge_partial_manifest s partial_manifest"
  using merge_idem_aux(1) [of partial_manifest]
  by (simp add: merge_partial_manifest_def)

theorem C7_merge_idempotent_witness:
  "merge
     (merge
        (JObj [(''metadata'', JObj [(''name'', JStr ''sample-pod''),
                                   (''labels'', JObj [(''app'', JStr ''l1'')])]),
               (''spec'', JObj [(''containers'', JArr [JStr ''a'', JStr ''b''])])])
        (JObj [(''metadata'', JObj [(''namespace'', JStr ''default''),
                                   (''labels'', JObj [(''app'', JStr ''l2'')])]),
               (''spec'', JObj [(''containers'', JArr [JStr ''c''])])]))
     (JObj [(''metadata'', JObj [(''namespace'', JStr ''default''),
                                (''labels'', JObj [(''app'', JStr ''l2'')])]),
            (''spec'', JObj [(''containers'', JArr [JStr ''c''])])])
   = JObj [(''metadata'', JObj [(''name'', JStr ''sample-pod''),
                               (''labels'', JObj [(''app'', JStr ''l2'')]),
                               (''namespace'', JStr ''default'')]),
           (''spec'', JObj [(''containers'', JArr [JStr ''c''])])]"
  using C7_merge_idempotent
    [of "JObj [(''metadata'', JObj [(''namespace'', JStr ''default''),
                                   (''labels'', JObj [(''app'', JStr ''l2'')])]),
               (''spec'', JObj [(''containers'', JArr [JStr ''c''])])]"
        "JObj [(''metadata'', JObj [(''name'', JStr ''sample-pod''),
                                   (''labels'', JObj [(''app'', JStr ''l1'')])]),
               (''spec'', JObj [(''containers'', JArr [JStr ''a'', JStr ''b''])])]"]
  by simp

section \<open>Construction fails without an identity\<close>


lemma identity_not_specified_no_mapping:
  "metadata_of m = None \<Longrightarrow> identity_not_specified m = Inl AttributeError"
  by (cases m)
     (auto simp: metadata_of_def identity_not_specified_def split: option.splits json.splits)


text \<open>
  A manifest that is not a mapping, or whose \<^verbatim>\<open>metadata\<close> is present and not a mapping,
  fails in the lookup itself (\<^verbatim>\<open>.get\<close> on a value that has no such method), again before
  anything is sent; and no path through a constructor has an effect on the outside.
\<close>

lemma init_fails_without_metadata_mapping:
  "metadata_of (init_manifest body partial_manifest) = None \<Longrightarrow>
   Pod_init deserialize_pod body partial_manifest = (Inl AttributeError, [])
   \<and> Deployment_init deserialize_deployment body partial_manifest = (Inl AttributeError, [])"
  by (simp add: Pod_init_def Deployment_init_def Let_def identity_not_specified_no_mapping)

lemma init_effects_empty:
  "snd (Pod_init deserialize_pod body partial_manifest) = []
   \<and> snd (Deployment_init deserialize_deployment body partial_manifest) = []"
  by (simp add: Pod_init_def Deployment_init_def Let_def split: sum.splits bool.splits)


section \<open>Deletion and the model\<close>

text \<open>
  \<^verbatim>\<open>Pod.delete\<close> and \<^verbatim>\<open>PodManager.delete\<close> leave the empty default model behind whenever they
  return \<^verbatim>\<open>True\<close>. \<^verbatim>\<open>Deployment.delete\<close> with \<^verbatim>\<open>wait_for_completion\<close> and
  \<^verbatim>\<open>DeploymentManager.delete\<close> never change the model.
\<close>

lemma Pod_delete_wait_True:
  "Pod_delete_wait s self evs = (True, s', fx) \<Longrightarrow> model s' = V1Pod_empty"
  by (induction evs) (auto split: if_splits)

lemma Pod_delete_confirmed_resets:
  "Pod_delete s w cl = (Inr True, s', fx) \<Longrightarrow> model s' = V1Pod_empty"
  by (auto simp: Pod_delete_def Let_def split: v1_pod.splits sum.splits if_splits prod.splits
      dest: Pod_delete_wait_True)

lemma Pod_delete_without_waiting:
  "model s = V1Pod p \<Longrightarrow> delete_namespaced_pod cl = Inr u \<Longrightarrow>
   Pod_delete s False cl =
     (Inl AttributeError, s\<lparr>model := V1Pod_empty\<rparr>,
      [LogInfo (''Deleting pod '' @ pod_namespaced_name p), Remote ''delete_namespaced_pod''])"
  by (simp add: Pod_delete_def)

lemma PodManager_delete_resets:
  "PodManager_delete s cl = (Inr r, s', fx) \<Longrightarrow> pod s' = PodModel V1Pod_empty"
  by (auto simp: PodManager_delete_def Let_def split: sum.splits)

lemma Deployment_delete_wait_keeps:
  "Deployment_delete_wait s self evs = (r, s', fx) \<Longrightarrow> s' = s"
  by (induction evs) (auto split: if_splits)

lemma Deployment_delete_waiting_keeps_model:
  "Deployment_delete s True cl = (r, s', fx) \<Longrightarrow> d_model s' = d_model s"
  by (auto simp: Deployment_delete_def Let_def
      split: v1_deployment.splits sum.splits prod.splits dest: Deployment_delete_wait_keeps)

lemma DeploymentManager_delete_keeps:
  "DeploymentManager_delete s cl = (r, s', fx) \<Longrightarrow> s' = s"
  by (auto simp: DeploymentManager_delete_def split: sum.splits)

text \<open>
  Claim C9: a confirmed deletion resets the entity's model to the empty default. Here
  \<^verbatim>\<open>Deployment.delete\<close> waits, reads the \<^verbatim>\<open>DELETED\<close> event with the deployment's uid,
  stops the watch and returns \<^verbatim>\<open>True\<close>; the model is still the deployment.
\<close>

theorem C9_Deployment_delete_keeps_model:
  "Deployment_delete
     \<lparr>d_manifest = JObj [],
      d_model = V1Deployment
        \<lparr>dep_name = ''nginx-deployment'', dep_namespace = ''default'', dep_uid = Some ''d-1'',
         dep_replicas = Some 3, dep_available_replicas = Some 3\<rparr>\<rparr>
     True
     \<lparr>create_namespaced_deployment = Inl (ApiException 409),
      dep_create_events = [],
      delete_namespaced_deployment = Inr (),
      dep_delete_events =
        [\<lparr>dev_type = ''DELETED'',
          dev_object =
            \<lparr>dep_name = ''nginx-deployment'', dep_namespace = ''default'',
             dep_uid = Some ''d-1'', dep_replicas = Some 3,
             dep_available_replicas = Some 3\<rparr>\<rparr>]\<rparr>
   = (Inr True,
      \<lparr>d_manifest = JObj [],
       d_model = V1Deployment
         \<lparr>dep_name = ''nginx-deployment'', dep_namespace = ''default'', dep_uid = Some ''d-1'',
          dep_replicas = Some 3, dep_available_replicas = Some 3\<rparr>\<rparr>,
      [Remote ''delete_namespaced_deployment'', Remote ''list_namespaced_deployment'',
       WatchStop])"
  by (simp add: Deployment_delete_def)

section \<open>Scoped use\<close>

lemma Pod_enter_returns_self:
  assumes "model s = V1Pod p" and "create_namespaced_pod cl = Inr res"
  shows "\<exists>fx. Pod_enter s cl = (Inr (s\<lparr>model := V1Pod res\<rparr>), s\<lparr>model := V1Pod res\<rparr>, fx)
           \<and> (\<not> fst (Pod_create_wait res (pod_create_events cl)) \<longrightarrow>
                last fx = Print ''unable to get pod ready'')"
  using assms
  by (cases "Pod_create_wait res (pod_create_events cl)")
     (simp add: Pod_enter_def Pod_create_def Let_def)

lemma Deployment_enter_returns_self:
  assumes "d_model ds = V1Deployment dp" and "create_namespaced_deployment dcl = Inr dres"
  shows "\<exists>fx. Deployment_enter ds dcl =
           (Inr (ds\<lparr>d_model := V1Deployment dres\<rparr>), ds\<lparr>d_model := V1Deployment dres\<rparr>, fx)"
  using assms
  by (cases "Deployment_create_wait dres (dep_create_events dcl)")
     (simp add: Deployment_enter_def Deployment_create_def Let_def)

lemma PodManager_enter_returns_self:
  assumes "create_namespaced_pod cl = Inr res"
  shows "\<exists>fx. PodManager_enter ms cl =
           (Inr (ms\<lparr>pod := PodModel (V1Pod res)\<rparr>), ms\<lparr>pod := PodModel (V1Pod res)\<rparr>, fx)
           \<and> (fst (PodManager_ready_loop res (pod_create_events cl)) \<noteq> Some True \<longrightarrow>
                last fx = Print ''unable to get pod ready'')"
  using assms
  by (cases "PodManager_ready_loop res (pod_create_events cl)")
     (simp add: PodManager_enter_def PodManager_create_def PodManager_ready_def Let_def)

text \<open>
  Claim C10: once the create call has answered, \<^verbatim>\<open>__enter__\<close> of \<^verbatim>\<open>Pod\<close>, \<^verbatim>\<open>Deployment\<close>
  and \<^verbatim>\<open>PodManager\<close> returns the entity itself, holding the created object, for every
  event stream of the readiness wait; when the wait did not resolve Ready, \<^verbatim>\<open>Pod\<close> and
  \<^verbatim>\<open>PodManager\<close> print a line last and still return.
\<close>

theorem C10_enter_returns_self:
  "(model s = V1Pod p \<and> create_namespaced_pod cl = Inr res \<longrightarrow>
      (\<exists>fx. Pod_enter s cl = (Inr (s\<lparr>model := V1Pod res\<rparr>), s\<lparr>model := V1Pod res\<rparr>, fx)
           \<and> (\<not> fst (Pod_create_wait res (pod_create_events cl)) \<longrightarrow>
                last fx = Print ''unable to get pod ready'')))
   \<and> (d_model ds = V1Deployment dp \<and> create_namespaced_deployment dcl = Inr dres \<longrightarrow>
      (\<exists>fx. Deployment_enter ds dcl =
           (Inr (ds\<lparr>d_model := V1Deployment dres\<rparr>), ds\<lparr>d_model := V1Deployment dres\<rparr>, fx)))
   \<and> (create_namespaced_pod cl = Inr res \<longrightarrow>
      (\<exists>fx. PodManager_enter ms cl =
           (Inr (ms\<lparr>pod := PodModel (V1Pod res)\<rparr>), ms\<lparr>pod := PodModel (V1Pod res)\<rparr>, fx)
           \<and> (fst (PodManager_ready_loop res (pod_create_events cl)) \<noteq> Some True \<longrightarrow>
                last fx = Print ''unable to get pod ready'')))"
  using Pod_enter_returns_self [of s p cl res]
    Deployment_enter_returns_self [of ds dp dcl dres]
    PodManager_enter_returns_self [of cl res ms]
  by blast

theorem C10_enter_returns_self_witness:
  "fst (Pod_enter
     \<lparr>manifest = JObj [], model = V1Pod \<lparr>pod_name = ''sample-pod'',
        pod_namespace = ''default'', pod_uid = None, pod_phase = None\<rparr>\<rparr>
     \<lparr>create_namespaced_pod = Inr \<lparr>pod_name = ''sample-pod'',
        pod_namespace = ''default'', pod_uid = Some ''u-1'', pod_phase = Some ''Pending''\<rparr>,
      pod_create_events =
        [\<lparr>pev_type = ''DELETED'',
          pev_object = \<lparr>pod_name = ''sample-pod'', pod_namespace = ''default'',
            pod_uid = Some ''u-1'', pod_phase = Some ''Pending''\<rparr>\<rparr>],
      delete_namespaced_pod = Inr (),
      pod_delete_events = []\<rparr>)
   = Inr \<lparr>manifest = JObj [], model = V1Pod \<lparr>pod_name = ''sample-pod'',
        pod_namespace = ''default'', pod_uid = Some ''u-1'', pod_phase = Some ''Pending''\<rparr>\<rparr>
   \<and> fst (PodManager_enter
     \<lparr>pod = PodDict (JObj [(''kind'', JStr ''Pod'')])\<rparr>
     \<lparr>create_namespaced_pod = Inr \<lparr>pod_name = ''sample-pod'',
        pod_namespace = ''default'', pod_uid = Some ''u-1'', pod_phase = Some ''Pending''\<rparr>,
      pod_create_events =
        [\<lparr>pev_type = ''DELETED'',
          pev_object = \<lparr>pod_name = ''sample-pod'', pod_namespace = ''default'',
            pod_uid = Some ''u-1'', pod_phase = Some ''Pending''\<rparr>\<rparr>],
      delete_namespaced_pod = Inr (),
      pod_delete_events = []\<rparr>)
   = Inr \<lparr>pod = PodModel (V1Pod \<lparr>pod_name = ''sample-pod'',
        pod_namespace = ''default'', pod_uid = Some ''u-1'', pod_phase = Some ''Pending''\<rparr>)\<rparr>
   \<and> fst (Deployment_enter
     \<lparr>d_manifest = JObj [], d_model = V1Deployment \<lparr>dep_name = ''nginx-deployment'',
        dep_namespace = ''default'', dep_uid = None, dep_replicas = Some 3,
        dep_available_replicas = None\<rparr>\<rparr>
     \<lparr>create_namespaced_deployment = Inr \<lparr>dep_name = ''nginx-deployment'',
        dep_namespace = ''default'', dep_uid = Some ''d-1'', dep_replicas = Some 3,
        dep_available_replicas = None\<rparr>,
      dep_create_events = [],
      delete_namespaced_deployment = Inr (),
      dep_delete_events = []\<rparr>)
   = Inr \<lparr>d_manifest = JObj [], d_model = V1Deployment \<lparr>dep_name = ''nginx-deployment'',
        dep_namespace = ''default'', dep_uid = Some ''d-1'', dep_replicas = Some 3,
        dep_available_replicas = None\<rparr>\<rparr>"
  using C10_enter_returns_self
    [where s = "\<lparr>manifest = JObj [], model = V1Pod \<lparr>pod_name = ''sample-pod'',
        pod_namespace = ''default'', pod_uid = None, pod_phase = None\<rparr>\<rparr>"
       and p = "\<lparr>pod_name = ''sample-pod'',
        pod_namespace = ''default'', pod_uid = None, pod_phase = None\<rparr>"
       and cl = "\<lparr>create_namespaced_pod = Inr \<lparr>pod_name = ''sample-pod'',
        pod_namespace = ''default'', pod_uid = Some ''u-1'', pod_phase = Some ''Pending''\<rparr>,
      pod_create_events =
        [\<lparr>pev_type = ''DELETED'',
          pev_object = \<lparr>pod_name = ''sample-pod'', pod_namespace = ''default'',
            pod_uid = Some ''u-1'', pod_phase = Some ''Pending''\<rparr>\<rparr>],
      delete_namespaced_pod = Inr (),
      pod_delete_events = []\<rparr>"
       and res = "\<lparr>pod_name = ''sample-pod'',
        pod_namespace = ''default'', pod_uid = Some ''u-1'', pod_phase = Some ''Pending''\<rparr>"
       and ms = "\<lparr>pod = PodDict (JObj [(''kind'', JStr ''Pod'')])\<rparr>"
       and ds = "\<lparr>d_manifest = JObj [], d_model = V1Deployment \<lparr>dep_name = ''nginx-deployment'',
        dep_namespace = ''default'', dep_uid = None, dep_replicas = Some 3,
        dep_available_replicas = None\<rparr>\<rparr>"
       and dp = "\<lparr>dep_name = ''nginx-deployment'',
        dep_namespace = ''default'', dep_uid = None, dep_replicas = Some 3,
        dep_available_replicas = None\<rparr>"
       and dcl = "\<lparr>create_namespaced_deployment = Inr \<lparr>dep_name = ''nginx-deployment'',
        dep_namespace = ''default'', dep_uid = Some ''d-1'', dep_replicas = Some 3,
        dep_available_replicas = None\<rparr>,
      dep_create_events = [],
      delete_namespaced_deployment = Inr (),
      dep_delete_events = []\<rparr>"
       and dres = "\<lparr>dep_name = ''nginx-deployment'',
        dep_namespace = ''default'', dep_uid = Some ''d-1'', dep_replicas = Some 3,
        dep_available_replicas = None\<rparr>"]
  by auto

subsection \<open>Leaving the scope\<close>

lemma Pod_exit_returns_None:
  assumes "model s2 = V1Pod p" and "delete_namespaced_pod cl = Inr u"
  shows "fst (Pod_exit s2 cl) = Inr None
         \<and> (\<not> fst (Pod_delete_wait s2 p (pod_delete_events cl)) \<longrightarrow>
              last (snd (snd (Pod_exit s2 cl))) = Print ''unable to delete pod'')"
  using assms
  by (cases "Pod_delete_wait s2 p (pod_delete_events cl)")
     (simp add: Pod_exit_def Pod_delete_def Let_def)

lemma Deployment_exit_returns_None:
  assumes "d_model s2 = V1Deployment p" and "delete_namespaced_deployment cl = Inr u"
  shows "fst (Deployment_exit s2 cl) = Inr None
         \<and> (\<not> fst (Deployment_delete_wait s2 p (dep_delete_events cl)) \<longrightarrow>
              last (snd (snd (Deployment_exit s2 cl))) = Print ''unable to delete deployment'')"
  using assms
  by (cases "Deployment_delete_wait s2 p (dep_delete_events cl)")
     (simp add: Deployment_exit_def Deployment_delete_def Let_def)

lemma py_with_body_error:
  assumes "enter s = (Inr h, s1, fx1)" and "body h = (Inl e, s2, fx2)"
    and "fst (exit s2) = Inr None"
  shows "fst (py_with enter exit body s) = Inl e"
  using assms by (cases "exit s2") (simp add: py_with_def)

lemma py_with_body_error_suppressed:
  assumes "enter s = (Inr h, s1, fx1)" and "body h = (Inl e, s2, fx2)"
    and "fst (exit s2) = Inr (Some True)"
  shows "fst (py_with enter exit body s) = Inr None"
  using assms by (cases "exit s2") (simp add: py_with_def)

lemma PodManager_exit_returns_True:
  assumes "pm_metadata (pod s2) = Inr p" and "delete_namespaced_pod cl = Inr u"
  shows "fst (PodManager_exit s2 cl) = Inr (Some True)"
  using assms by (simp add: PodManager_exit_def PodManager_delete_def Let_def)

text \<open>
  Claim C3 says that teardown reports a failed delete without raising and that the body's
  error still propagates. In the first scope the body raises and the delete call of
  \<^verbatim>\<open>Pod.__exit__\<close> is rejected (the pod is gone): the exception of the delete call leaves
  the \<^verbatim>\<open>with\<close> statement in place of the body's error. In the second scope
  \<^verbatim>\<open>PodManager.__exit__\<close> returns the \<^verbatim>\<open>True\<close> of \<^verbatim>\<open>delete\<close>, and the body's error is
  suppressed.
\<close>

theorem C3_counterexample:
  "fst (py_with
     (\<lambda>x. Pod_enter x
        \<lparr>create_namespaced_pod = Inr \<lparr>pod_name = ''sample-pod'',
           pod_namespace = ''default'', pod_uid = Some ''u-1'', pod_phase = Some ''Pending''\<rparr>,
         pod_create_events =
           [\<lparr>pev_type = ''MODIFIED'',
             pev_object = \<lparr>pod_name = ''sample-pod'', pod_namespace = ''default'',
               pod_uid = Some ''u-1'', pod_phase = Some ''Running''\<rparr>\<rparr>],
         delete_namespaced_pod = Inl (ApiException 404),
         pod_delete_events = []\<rparr>)
     (\<lambda>x. Pod_exit x
        \<lparr>create_namespaced_pod = Inr \<lparr>pod_name = ''sample-pod'',
           pod_namespace = ''default'', pod_uid = Some ''u-1'', pod_phase = Some ''Pending''\<rparr>,
         pod_create_events =
           [\<lparr>pev_type = ''MODIFIED'',
             pev_object = \<lparr>pod_name = ''sample-pod'', pod_namespace = ''default'',
               pod_uid = Some ''u-1'', pod_phase = Some ''Running''\<rparr>\<rparr>],
         delete_namespaced_pod = Inl (ApiException 404),
         pod_delete_events = []\<rparr>)
     (\<lambda>h. (Inl (BodyError ''boom'') :: error + unit, h, []))
     \<lparr>manifest = JObj [], model = V1Pod \<lparr>pod_name = ''sample-pod'',
        pod_namespace = ''default'', pod_uid = None, pod_phase = None\<rparr>\<rparr>)
   = Inl (ApiException 404)
   \<and> fst (py_with
     (\<lambda>x. PodManager_enter x
        \<lparr>create_namespaced_pod = Inr \<lparr>pod_name = ''sample-pod'',
           pod_namespace = ''default'', pod_uid = Some ''u-1'', pod_phase = Some ''Pending''\<rparr>,
         pod_create_events =
           [\<lparr>pev_type = ''MODIFIED'',
             pev_object = \<lparr>pod_name = ''sample-pod'', pod_namespace = ''default'',
               pod_uid = Some ''u-1'', pod_phase = Some ''Running''\<rparr>\<rparr>],
         delete_namespaced_pod = Inr (),
         pod_delete_events = []\<rparr>)
     (\<lambda>x. PodManager_exit x
        \<lparr>create_namespaced_pod = Inr \<lparr>pod_name = ''sample-pod'',
           pod_namespace = ''default'', pod_uid = Some ''u-1'', pod_phase = Some ''Pending''\<rparr>,
         pod_create_events =
           [\<lparr>pev_type = ''MODIFIED'',
             pev_object = \<lparr>pod_name = ''sample-pod'', pod_namespace = ''default'',
               pod_uid = Some ''u-1'', pod_phase = Some ''Running''\<rparr>\<rparr>],
         delete_namespaced_pod = Inr (),
         pod_delete_events = []\<rparr>)
     (\<lambda>h. (Inl (BodyError ''boom'') :: error + unit, h, []))
     \<lparr>pod = PodDict (JObj [(''kind'', JStr ''Pod'')])\<rparr>)
   = Inr None"
  by (simp add: py_with_def Pod_enter_def Pod_create_def Pod_exit_def Pod_delete_def
      PodManager_enter_def PodManager_create_def PodManager_ready_def PodManager_exit_def
      PodManager_delete_def Let_def)

text \<open>
  Claim C3, as \<^verbatim>\<open>model.py\<close> implements it: when the body of a scope over a \<^verbatim>\<open>Pod\<close> or a
  \<^verbatim>\<open>Deployment\<close> raises, the entity still holds an object and the remote delete call
  returns, \<^verbatim>\<open>__exit__\<close> returns \<^verbatim>\<open>None\<close>, its last effect is the line
  \<^verbatim>\<open>unable to delete ...\<close> when the deletion was not confirmed, and the \<^verbatim>\<open>with\<close> statement
  raises the body's error.
\<close>

theorem C3_body_error_propagates:
  "(Pod_enter s cl = (Inr h, s1, fx1) \<and> body h = (Inl e, s2, fx2)
      \<and> model s2 = V1Pod p \<and> delete_namespaced_pod cl = Inr () \<longrightarrow>
      fst (py_with (\<lambda>x. Pod_enter x cl) (\<lambda>x. Pod_exit x cl) body s) = Inl e
      \<and> fst (Pod_exit s2 cl) = Inr None
      \<and> (\<not> fst (Pod_delete_wait s2 p (pod_delete_events cl)) \<longrightarrow>
           last (snd (snd (Pod_exit s2 cl))) = Print ''unable to delete pod''))
   \<and> (Deployment_enter ds dcl = (Inr dh, ds1, dfx1) \<and> dbody dh = (Inl de, ds2, dfx2)
      \<and> d_model ds2 = V1Deployment dp \<and> delete_namespaced_deployment dcl = Inr () \<longrightarrow>
      fst (py_with (\<lambda>x. Deployment_enter x dcl) (\<lambda>x. Deployment_exit x dcl) dbody ds) = Inl de
      \<and> fst (Deployment_exit ds2 dcl) = Inr None
      \<and> (\<not> fst (Deployment_delete_wait ds2 dp (dep_delete_events dcl)) \<longrightarrow>
           last (snd (snd (Deployment_exit ds2 dcl))) = Print ''unable to delete deployment''))"
proof (intro conjI impI)
  assume h: "Pod_enter s cl = (Inr h, s1, fx1) \<and> body h = (Inl e, s2, fx2)
      \<and> model s2 = V1Pod p \<and> delete_namespaced_pod cl = Inr ()"
  have x: "fst (Pod_exit s2 cl) = Inr None
         \<and> (\<not> fst (Pod_delete_wait s2 p (pod_delete_events cl)) \<longrightarrow>
              last (snd (snd (Pod_exit s2 cl))) = Print ''unable to delete pod'')"
    using h Pod_exit_returns_None [of s2 p cl "()"] by simp
  show "fst (Pod_exit s2 cl) = Inr None" using x by simp
  show "fst (py_with (\<lambda>x. Pod_enter x cl) (\<lambda>x. Pod_exit x cl) body s) = Inl e"
    using h x py_with_body_error [of "\<lambda>x. Pod_enter x cl" s h s1 fx1 body e s2 fx2
        "\<lambda>x. Pod_exit x cl"]
    by simp
  assume "\<not> fst (Pod_delete_wait s2 p (pod_delete_events cl))"
  then show "last (snd (snd (Pod_exit s2 cl))) = Print ''unable to delete pod''"
    using x by simp
next
  assume h: "Deployment_enter ds dcl = (Inr dh, ds1, dfx1) \<and> dbody dh = (Inl de, ds2, dfx2)
      \<and> d_model ds2 = V1Deployment dp \<and> delete_namespaced_deployment dcl = Inr ()"
  have x: "fst (Deployment_exit ds2 dcl) = Inr None
         \<and> (\<not> fst (Deployment_delete_wait ds2 dp (dep_delete_events dcl)) \<longrightarrow>
              last (snd (snd (Deployment_exit ds2 dcl))) = Print ''unable to delete deployment'')"
    using h Deployment_exit_returns_None [of ds2 dp dcl "()"] by simp
  show "fst (Deployment_exit ds2 dcl) = Inr None" using x by simp
  show "fst (py_with (\<lambda>x. Deployment_enter x dcl) (\<lambda>x. Deployment_exit x dcl) dbody ds) = Inl de"
    using h x py_with_body_error [of "\<lambda>x. Deployment_enter x dcl" ds dh ds1 dfx1 dbody de ds2
        dfx2 "\<lambda>x. Deployment_exit x dcl"]
    by simp
  assume "\<not> fst (Deployment_delete_wait ds2 dp (dep_delete_events dcl))"
  then show "last (snd (snd (Deployment_exit ds2 dcl))) = Print ''unable to delete deployment''"
    using x by simp
qed

lemma PodManager_exit_suppresses:
  assumes "PodManager_enter s cl = (Inr h, s1, fx1)" and "body h = (Inl e, s2, fx2)"
    and "pm_metadata (pod s2) = Inr p" and "delete_namespaced_pod cl = Inr ()"
  shows "fst (py_with (\<lambda>x. PodManager_enter x cl) (\<lambda>x. PodManager_exit x cl) body s) = Inr None"
  using assms PodManager_exit_returns_True [of s2 p cl "()"]
    py_with_body_error_suppressed [of "\<lambda>x. PodManager_enter x cl" s h s1 fx1 body e s2 fx2
      "\<lambda>x. PodManager_exit x cl"]
  by simp

theorem C3_body_error_propagates_witness:
  "fst (py_with
     (\<lambda>x. Pod_enter x
        \<lparr>create_namespaced_pod = Inr \<lparr>pod_name = ''sample-pod'',
           pod_namespace = ''default'', pod_uid = Some ''u-1'', pod_phase = Some ''Pending''\<rparr>,
         pod_create_events =
           [\<lparr>pev_type = ''MODIFIED'',
             pev_object = \<lparr>pod_name = ''sample-pod'', pod_namespace = ''default'',
               pod_uid = Some ''u-1'', pod_phase = Some ''Running''\<rparr>\<rparr>],
         delete_namespaced_pod = Inr (),
         pod_delete_events = []\<rparr>)
     (\<lambda>x. Pod_exit x
        \<lparr>create_namespaced_pod = Inr \<lparr>pod_name = ''sample-pod'',
           pod_namespace = ''default'', pod_uid = Some ''u-1'', pod_phase = Some ''Pending''\<rparr>,
         pod_create_events =
           [\<lparr>pev_type = ''MODIFIED'',
             pev_object = \<lparr>pod_name = ''sample-pod'', pod_namespace = ''default'',
               pod_uid = Some ''u-1'', pod_phase = Some ''Running''\<rparr>\<rparr>],
         delete_namespaced_pod = Inr (),
         pod_delete_events = []\<rparr>)
     (\<lambda>h. (Inl (BodyError ''boom'') :: error + unit, h, []))
     \<lparr>manifest = JObj [], model = V1Pod \<lparr>pod_name = ''sample-pod'',
        pod_namespace = ''default'', pod_uid = None, pod_phase = None\<rparr>\<rparr>)
   = Inl (BodyError ''boom'')
   \<and> fst (py_with
     (\<lambda>x. Deployment_enter x
        \<lparr>create_namespaced_deployment = Inr \<lparr>dep_name = ''nginx-deployment'',
           dep_namespace = ''default'', dep_uid = Some ''d-1'', dep_replicas = Some 3,
           dep_available_replicas = None\<rparr>,
         dep_create_events = [],
         delete_namespaced_deployment = Inr (),
         dep_delete_events = []\<rparr>)
     (\<lambda>x. Deployment_exit x
        \<lparr>create_namespaced_deployment = Inr \<lparr>dep_name = ''nginx-deployment'',
           dep_namespace = ''default'', dep_uid = Some ''d-1'', dep_replicas = Some 3,
           dep_available_replicas = None\<rparr>,
         dep_create_events = [],
         delete_namespaced_deployment = Inr (),
         dep_delete_events = []\<rparr>)
     (\<lambda>h. (Inl (BodyError ''boom'') :: error + unit, h, []))
     \<lparr>d_manifest = JObj [], d_model = V1Deployment \<lparr>dep_name = ''nginx-deployment'',
        dep_namespace = ''default'', dep_uid = None, dep_replicas = Some 3,
        dep_available_replicas = None\<rparr>\<rparr>)
   = Inl (BodyError ''boom'')"
  using C3_body_error_propagates
    [where s = "\<lparr>manifest = JObj [], model = V1Pod \<lparr>pod_name = ''sample-pod'',
        pod_namespace = ''default'', pod_uid = None, pod_phase = None\<rparr>\<rparr>"
       and cl = "\<lparr>create_namespaced_pod = Inr \<lparr>pod_name = ''sample-pod'',
           pod_namespace = ''default'', pod_uid = Some ''u-1'', pod_phase = Some ''Pending''\<rparr>,
         pod_create_events =
           [\<lparr>pev_type = ''MODIFIED'',
             pev_object = \<lparr>pod_name = ''sample-pod'', pod_namespace = ''default'',
               pod_uid = Some ''u-1'', pod_phase = Some ''Running''\<rparr>\<rparr>],
         delete_namespaced_pod = Inr (),
         pod_delete_events = []\<rparr>"
       and h = "\<lparr>manifest = JObj [], model = V1Pod \<lparr>pod_name = ''sample-pod'',
           pod_namespace = ''default'', pod_uid = Some ''u-1'', pod_phase = Some ''Pending''\<rparr>\<rparr>"
       and ?s1.0 = "\<lparr>manifest = JObj [], model = V1Pod \<lparr>pod_name = ''sample-pod'',
           pod_namespace = ''default'', pod_uid = Some ''u-1'', pod_phase = Some ''Pending''\<rparr>\<rparr>"
       and ?fx1.0 = "[LogInfo ''Creating pod default/sample-pod'', LogInfo ''to_pretty'',
           Remote ''create_namespaced_pod'', Remote ''list_namespaced_pod'', WatchStop,
           LogInfo ''Pod created default/sample-pod'']"
       and body = "\<lambda>h. (Inl (BodyError ''boom'') :: error + unit, h, [])"
       and e = "BodyError ''boom''"
       and ?s2.0 = "\<lparr>manifest = JObj [], model = V1Pod \<lparr>pod_name = ''sample-pod'',
           pod_namespace = ''default'', pod_uid = Some ''u-1'', pod_phase = Some ''Pending''\<rparr>\<rparr>"
       and ?fx2.0 = "[]"
       and p = "\<lparr>pod_name = ''sample-pod'',
           pod_namespace = ''default'', pod_uid = Some ''u-1'', pod_phase = Some ''Pending''\<rparr>"
       and ds = "\<lparr>d_manifest = JObj [], d_model = V1Deployment \<lparr>dep_name = ''nginx-deployment'',
        dep_namespace = ''default'', dep_uid = None, dep_replicas = Some 3,
        dep_available_replicas = None\<rparr>\<rparr>"
       and dcl = "\<lparr>create_namespaced_deployment = Inr \<lparr>dep_name = ''nginx-deployment'',
           dep_namespace = ''default'', dep_uid = Some ''d-1'', dep_replicas = Some 3,
           dep_available_replicas = None\<rparr>,
         dep_create_events = [],
         delete_namespaced_deployment = Inr (),
         dep_delete_events = []\<rparr>"
       and dh = "\<lparr>d_manifest = JObj [], d_model = V1Deployment \<lparr>dep_name = ''nginx-deployment'',
           dep_namespace = ''default'', dep_uid = Some ''d-1'', dep_replicas = Some 3,
           dep_available_replicas = None\<rparr>\<rparr>"
       and ?ds1.0 = "\<lparr>d_manifest = JObj [], d_model = V1Deployment \<lparr>dep_name = ''nginx-deployment'',
           dep_namespace = ''default'', dep_uid = Some ''d-1'', dep_replicas = Some 3,
           dep_available_replicas = None\<rparr>\<rparr>"
       and ?dfx1.0 = "[LogInfo ''to_pretty'', Remote ''create_namespaced_deployment'',
           Remote ''list_namespaced_deployment'',
           Print ''unable to get created deployment default/nginx-deployment'']"
       and dbody = "\<lambda>h. (Inl (BodyError ''boom'') :: error + unit, h, [])"
       and de = "BodyError ''boom''"
       and ?ds2.0 = "\<lparr>d_manifest = JObj [], d_model = V1Deployment \<lparr>dep_name = ''nginx-deployment'',
           dep_namespace = ''default'', dep_uid = Some ''d-1'', dep_replicas = Some 3,
           dep_available_replicas = None\<rparr>\<rparr>"
       and ?dfx2.0 = "[]"
       and dp = "\<lparr>dep_name = ''nginx-deployment'',
           dep_namespace = ''default'', dep_uid = Some ''d-1'', dep_replicas = Some 3,
           dep_available_replicas = None\<rparr>"]
  by (simp add: Pod_enter_def Pod_create_def Deployment_enter_def Deployment_create_def
      pod_namespaced_name_def dep_namespaced_name_def Let_def)

end
